theory Spec2Isabelle
  imports Main "HOL-Library.Sublist"
begin

section \<open>The historical test-data cache job (units/cache\_historical\_test\_data.go)\<close>

subsection \<open>Times, errors, regular expressions\<close>

text \<open>
  A \<open>time.Time\<close> is an instant, modelled as the (unbounded) number of nanoseconds since the
  epoch; a \<open>time.Duration\<close> is a number of nanoseconds. \<open>t.Add(d)\<close> is \<open>t + d\<close> and
  \<open>t.After(u)\<close> is \<open>u < t\<close>. Dates stored in the database are far from the ends of the range
  of \<open>time.Time\<close>, so no wrap-around is modelled.
\<close>

type_synonym time = int

definition time_Hour :: int where
  "time_Hour = 3600 * 1000000000"

definition maxSyncDuration :: int where
  "maxSyncDuration = time_Hour * 24 * 7"

text \<open>
  Errors are values. \<open>Err msg\<close> is an error produced by a collaborator outside this file;
  \<open>Wrapped e msg\<close> is \<open>errors.Wrap(e, msg)\<close> for a non-nil \<open>e\<close>. \<open>errors.Wrap(nil, msg)\<close>
  is nil, which \<open>Wrap\<close> on \<open>error option\<close> keeps.
\<close>

datatype error = Err string | Wrapped error string

definition Wrap :: "error option \<Rightarrow> string \<Rightarrow> error option" where
  "Wrap err msg = (case err of None \<Rightarrow> None | Some e \<Rightarrow> Some (Wrapped e msg))"

text \<open>
  A compiled \<open>*regexp.Regexp\<close> of the standard library is represented by what its
  \<open>MatchString\<close> method answers. The compiler \<open>regexp.Compile\<close> is a parameter of the
  functions that call it.
\<close>

datatype Regexp = Regexp (MatchString: "string \<Rightarrow> bool")

type_synonym compiler = "string \<Rightarrow> error + Regexp"

subsection \<open>Data\<close>

text \<open>\<open>stats.StatsToUpdate\<close>: the fields this file reads.\<close>

record StatsToUpdate =
  ProjectId :: string
  Requester :: string
  Hour :: time
  Day :: time
  Tasks :: "string list"

record cacheHistoricalJobContext =
  ctxProjectId :: string
  JobTime :: time
  TasksToIgnore :: "Regexp list"

text \<open>
  \<open>dailyStatsRollup\<close> is \<open>map[time.Time]map[string][]string\<close>: a map from days to maps
  from requesters to task lists.
\<close>

type_synonym dailyStatsRollup = "time \<rightharpoonup> (string \<rightharpoonup> string list)"

subsection \<open>The window\<close>

text \<open>
  \<open>findTargetTimeForSync\<close> reads the clock once on entry; \<open>now\<close> is that reading.
\<close>

definition findTargetTimeForSync :: "time \<Rightarrow> time \<Rightarrow> time" where
  "findTargetTimeForSync now previousSyncTime =
     (let maxSyncTime = previousSyncTime + maxSyncDuration in
      if now < maxSyncTime then now else maxSyncTime)"

subsection \<open>Ignore patterns\<close>

text \<open>
  \<open>strings.Trim(s, cutset)\<close> removes the leading and the trailing characters of \<open>s\<close> that
  occur in \<open>cutset\<close>.
\<close>

definition Trim :: "string \<Rightarrow> string \<Rightarrow> string" where
  "Trim s cutset =
     rev (dropWhile (\<lambda>c. c \<in> set cutset) (rev (dropWhile (\<lambda>c. c \<in> set cutset) s)))"

text \<open>
  The loop of \<open>createRegexpFromStrings\<close>; \<open>tasksToIgnore\<close> is the slice built so far.
\<close>

fun createRegexpLoop :: "compiler \<Rightarrow> string list \<Rightarrow> Regexp list \<Rightarrow> error + Regexp list" where
  "createRegexpLoop compile [] tasksToIgnore = Inr tasksToIgnore"
| "createRegexpLoop compile (patternStr # filePatterns) tasksToIgnore =
     (let pattern = Trim patternStr '' '' in
      if pattern \<noteq> [] then
        (case compile pattern of
           Inl err \<Rightarrow> Inl (Wrapped err ''Could not compile regexp'')
         | Inr regexp \<Rightarrow> createRegexpLoop compile filePatterns (tasksToIgnore @ [regexp]))
      else createRegexpLoop compile filePatterns tasksToIgnore)"

definition createRegexpFromStrings :: "compiler \<Rightarrow> string list \<Rightarrow> error + Regexp list" where
  "createRegexpFromStrings compile filePatterns = createRegexpLoop compile filePatterns []"

fun anyRegexMatch :: "string \<Rightarrow> Regexp list \<Rightarrow> bool" where
  "anyRegexMatch v [] = False"
| "anyRegexMatch v (regexp # regexList) =
     (if MatchString regexp v then True else anyRegexMatch v regexList)"

text \<open>The loop of \<open>filterIgnoredTasks\<close>; \<open>filteredTaskList\<close> is the slice built so far.\<close>

fun filterLoop :: "string list \<Rightarrow> Regexp list \<Rightarrow> string list \<Rightarrow> string list" where
  "filterLoop [] tasksToIgnore filteredTaskList = filteredTaskList"
| "filterLoop (task # taskList) tasksToIgnore filteredTaskList =
     (if \<not> anyRegexMatch task tasksToIgnore
      then filterLoop taskList tasksToIgnore (filteredTaskList @ [task])
      else filterLoop taskList tasksToIgnore filteredTaskList)"

definition filterIgnoredTasks :: "string list \<Rightarrow> Regexp list \<Rightarrow> string list" where
  "filterIgnoredTasks taskList tasksToIgnore = filterLoop taskList tasksToIgnore []"

subsection \<open>The daily rollup\<close>

text \<open>
  One iteration of the loop of \<open>buildDailyStatsRollup\<close>. A missing key reads as nil in Go.
  A task slice is modelled by its contents, so a stored nil slice is the stored empty list;
  for it Go assigns \<open>stat.Tasks\<close> where the model appends \<open>stat.Tasks\<close> to the empty list,
  with the same contents. The task slices of distinct units do not share memory. A day is a
  key of a Go map; equal instants are taken to be equal keys, as they are for the days of one
  fetch, which one decoder produces.
\<close>

definition rollupStep :: "dailyStatsRollup \<Rightarrow> StatsToUpdate \<Rightarrow> dailyStatsRollup" where
  "rollupStep rollup stat =
     (let forDay = (case rollup (Day stat) of None \<Rightarrow> Map.empty | Some m \<Rightarrow> m) in
      case forDay (Requester stat) of
        None \<Rightarrow> rollup(Day stat \<mapsto> forDay(Requester stat \<mapsto> Tasks stat))
      | Some tasks \<Rightarrow> rollup(Day stat \<mapsto> forDay(Requester stat \<mapsto> tasks @ Tasks stat)))"

fun rollupLoop :: "dailyStatsRollup \<Rightarrow> StatsToUpdate list \<Rightarrow> dailyStatsRollup" where
  "rollupLoop rollup [] = rollup"
| "rollupLoop rollup (stat # hourlyStats) = rollupLoop (rollupStep rollup stat) hourlyStats"

definition buildDailyStatsRollup :: "StatsToUpdate list \<Rightarrow> dailyStatsRollup" where
  "buildDailyStatsRollup hourlyStats = rollupLoop Map.empty hourlyStats"

text \<open>\<open>rollup[day][requester]\<close> as a lookup, and as Go reads it (nil, of length 0, when missing).\<close>

definition bucket :: "dailyStatsRollup \<Rightarrow> time \<Rightarrow> string \<Rightarrow> string list option" where
  "bucket rollup day requester =
     (case rollup day of None \<Rightarrow> None | Some forDay \<Rightarrow> forDay requester)"

definition bucketTasks :: "dailyStatsRollup \<Rightarrow> time \<Rightarrow> string \<Rightarrow> string list" where
  "bucketTasks rollup day requester =
     (case bucket rollup day requester of None \<Rightarrow> [] | Some tasks \<Rightarrow> tasks)"

text \<open>The units that fold into the bucket of a day and a requester, in input order.\<close>

definition unitsOf :: "time \<Rightarrow> string \<Rightarrow> StatsToUpdate list \<Rightarrow> StatsToUpdate list" where
  "unitsOf day requester hourlyStats =
     filter (\<lambda>stat. Day stat = day \<and> Requester stat = requester) hourlyStats"

subsection \<open>Collaborators and what a run does to them\<close>

text \<open>
  The statistics store, the project store, the clock and the generator functions live outside
  this file. Their state is a world \<open>'w\<close>; a call takes the world and returns its result
  with the new world. Every function below that calls them also returns the calls it made,
  in order, as a list of events.
\<close>

record StatsStatus =
  ProcessedTasksUntil :: time

record ProjectRef =
  Identifier :: string
  refBranch :: string
  FilesIgnoredFromCache :: "string list"

datatype stage = Hourly | Daily

text \<open>
  One call of a \<open>generateStatsFn\<close>: its five arguments, the stage and the name under which
  the function is registered in its table.
\<close>

record genCall =
  call_stage :: stage
  call_displayName :: string
  call_projectId :: string
  call_requester :: string
  call_timePeriod :: time
  call_tasks :: "string list"
  call_jobDate :: time

datatype event =
    NowEv time
  | GetStatsStatusEv string "error + StatsStatus"
  | FindOneProjectRefEv string "error + ProjectRef option"
  | FindStatsToUpdateEv string time time "error + StatsToUpdate list"
  | GenerateEv genCall "error option"
  | UpdateStatsStatusEv string time time "error option"

type_synonym genEvent = "genCall \<times> error option"

definition generateEv :: "genEvent \<Rightarrow> event" where
  "generateEv e = GenerateEv (fst e) (snd e)"

type_synonym 'w generateStatsFn =
  "string \<Rightarrow> string \<Rightarrow> time \<Rightarrow> string list \<Rightarrow> time \<Rightarrow> 'w \<Rightarrow> error option \<times> 'w"

text \<open>
  \<open>generateFunctions\<close> holds two Go maps from names to functions. A \<open>range\<close> over a Go map
  visits its entries in an order the runtime chooses; each table is given as the list of its
  entries in the order in which the \<open>range\<close> visits them.
\<close>

record 'w generateFunctions =
  HourlyFns :: "(string \<times> 'w generateStatsFn) list"
  DailyFns :: "(string \<times> 'w generateStatsFn) list"

text \<open>
  The orders chosen by the runtime for the other \<open>range\<close> loops over maps: for the daily
  generator registered under a name, the order in which the days of the rollup are visited
  and, for each day, the order in which its requesters are visited; and whether the
  \<open>range\<close> over the two daily generators of \<open>Run\<close> visits "task" before "test".
\<close>

record rangeOrder =
  dayOrder :: "string \<Rightarrow> time list"
  requesterOrder :: "string \<Rightarrow> time \<Rightarrow> string list"
  dailyTaskFirst :: bool

text \<open>A list of keys is an order in which a \<open>range\<close> can visit a map.\<close>

definition enumerates :: "'k list \<Rightarrow> ('k \<rightharpoonup> 'v) \<Rightarrow> bool" where
  "enumerates ks m \<longleftrightarrow> distinct ks \<and> set ks = dom m"

subsection \<open>Dispatch of the generators\<close>

text \<open>
  The loops return the error (nil is \<open>None\<close>), the world and the generator calls made,
  each with what it returned. \<open>grip.Warning\<close> only logs and is left out.
\<close>

fun iteratorOverHourlyStats ::
  "cacheHistoricalJobContext \<Rightarrow> StatsToUpdate list \<Rightarrow> 'w generateStatsFn \<Rightarrow> string \<Rightarrow> 'w
     \<Rightarrow> error option \<times> 'w \<times> genEvent list" where
  "iteratorOverHourlyStats c [] fn name w = (None, w, [])"
| "iteratorOverHourlyStats c (stat # stats) fn name w =
     (let taskList = filterIgnoredTasks (Tasks stat) (TasksToIgnore c) in
      if length taskList > 0 then
        (case fn (ProjectId stat) (Requester stat) (Hour stat) taskList (JobTime c) w of
           (res, w') \<Rightarrow>
             (let ev = (\<lparr>call_stage = Hourly, call_displayName = name,
                         call_projectId = ProjectId stat, call_requester = Requester stat,
                         call_timePeriod = Hour stat, call_tasks = taskList,
                         call_jobDate = JobTime c\<rparr>, res) in
              case Wrap res ''Could not sync hourly stats'' of
                Some err \<Rightarrow> (Some err, w', [ev])
              | None \<Rightarrow>
                  (case iteratorOverHourlyStats c stats fn name w' of
                     (err, w'', evs) \<Rightarrow> (err, w'', ev # evs))))
      else iteratorOverHourlyStats c stats fn name w)"

text \<open>
  The inner loop of \<open>iteratorOverDailyStats\<close>, over the requesters of one day in the order
  \<open>requesters\<close>. A key that the map does not hold is not visited.
\<close>

fun overRequesters ::
  "cacheHistoricalJobContext \<Rightarrow> time \<Rightarrow> (string \<rightharpoonup> string list) \<Rightarrow> string list
     \<Rightarrow> 'w generateStatsFn \<Rightarrow> string \<Rightarrow> 'w \<Rightarrow> error option \<times> 'w \<times> genEvent list" where
  "overRequesters c day stats [] fn name w = (None, w, [])"
| "overRequesters c day stats (requester # requesters) fn name w =
     (case stats requester of
        None \<Rightarrow> overRequesters c day stats requesters fn name w
      | Some tasks \<Rightarrow>
          (let taskList = filterIgnoredTasks tasks (TasksToIgnore c) in
           if length taskList > 0 then
             (case fn (ctxProjectId c) requester day taskList (JobTime c) w of
                (res, w') \<Rightarrow>
                  (let ev = (\<lparr>call_stage = Daily, call_displayName = name,
                              call_projectId = ctxProjectId c, call_requester = requester,
                              call_timePeriod = day, call_tasks = taskList,
                              call_jobDate = JobTime c\<rparr>, res) in
                   case Wrap res ''Could not sync daily stats'' of
                     Some err \<Rightarrow> (Some err, w', [ev])
                   | None \<Rightarrow>
                       (case overRequesters c day stats requesters fn name w' of
                          (err, w'', evs) \<Rightarrow> (err, w'', ev # evs))))
           else overRequesters c day stats requesters fn name w))"

text \<open>The outer loop of \<open>iteratorOverDailyStats\<close>, over the days in the order \<open>days\<close>.\<close>

fun overDays ::
  "cacheHistoricalJobContext \<Rightarrow> dailyStatsRollup \<Rightarrow> (time \<Rightarrow> string list) \<Rightarrow> time list
     \<Rightarrow> 'w generateStatsFn \<Rightarrow> string \<Rightarrow> 'w \<Rightarrow> error option \<times> 'w \<times> genEvent list" where
  "overDays c dailyStats requestersOf [] fn name w = (None, w, [])"
| "overDays c dailyStats requestersOf (day # days) fn name w =
     (case dailyStats day of
        None \<Rightarrow> overDays c dailyStats requestersOf days fn name w
      | Some stats \<Rightarrow>
          (case overRequesters c day stats (requestersOf day) fn name w of
             (Some err, w', evs) \<Rightarrow> (Some err, w', evs)
           | (None, w', evs) \<Rightarrow>
               (case overDays c dailyStats requestersOf days fn name w' of
                  (err, w'', evs') \<Rightarrow> (err, w'', evs @ evs'))))"

definition iteratorOverDailyStats ::
  "cacheHistoricalJobContext \<Rightarrow> rangeOrder \<Rightarrow> dailyStatsRollup \<Rightarrow> 'w generateStatsFn \<Rightarrow> string
     \<Rightarrow> 'w \<Rightarrow> error option \<times> 'w \<times> genEvent list" where
  "iteratorOverDailyStats c ord dailyStats fn name w =
     overDays c dailyStats (requesterOrder ord name) (dayOrder ord name) fn name w"

text \<open>The two loops of \<open>updateHourlyAndDailyStats\<close> over the tables of generators.\<close>

fun overHourlyFns ::
  "cacheHistoricalJobContext \<Rightarrow> StatsToUpdate list \<Rightarrow> (string \<times> 'w generateStatsFn) list \<Rightarrow> 'w
     \<Rightarrow> error option \<times> 'w \<times> genEvent list" where
  "overHourlyFns c statsToUpdate [] w = (None, w, [])"
| "overHourlyFns c statsToUpdate ((name, genFn) # fns) w =
     (case iteratorOverHourlyStats c statsToUpdate genFn name w of
        (Some err, w', evs) \<Rightarrow> (Some err, w', evs)
      | (None, w', evs) \<Rightarrow>
          (case overHourlyFns c statsToUpdate fns w' of
             (err, w'', evs') \<Rightarrow> (err, w'', evs @ evs')))"

fun overDailyFns ::
  "cacheHistoricalJobContext \<Rightarrow> rangeOrder \<Rightarrow> dailyStatsRollup
     \<Rightarrow> (string \<times> 'w generateStatsFn) list \<Rightarrow> 'w \<Rightarrow> error option \<times> 'w \<times> genEvent list" where
  "overDailyFns c ord dailyStats [] w = (None, w, [])"
| "overDailyFns c ord dailyStats ((name, genFn) # fns) w =
     (case iteratorOverDailyStats c ord dailyStats genFn name w of
        (Some err, w', evs) \<Rightarrow> (Some err, w', evs)
      | (None, w', evs) \<Rightarrow>
          (case overDailyFns c ord dailyStats fns w' of
             (err, w'', evs') \<Rightarrow> (err, w'', evs @ evs')))"

definition updateHourlyAndDailyStats ::
  "cacheHistoricalJobContext \<Rightarrow> rangeOrder \<Rightarrow> StatsToUpdate list \<Rightarrow> 'w generateFunctions \<Rightarrow> 'w
     \<Rightarrow> error option \<times> 'w \<times> genEvent list" where
  "updateHourlyAndDailyStats c ord statsToUpdate generateFns w =
     (case overHourlyFns c statsToUpdate (HourlyFns generateFns) w of
        (Some err, w', evs) \<Rightarrow> (Some err, w', evs)
      | (None, w', evs) \<Rightarrow>
          (let dailyStats = buildDailyStatsRollup statsToUpdate in
           case overDailyFns c ord dailyStats (DailyFns generateFns) w' of
             (err, w'', evs') \<Rightarrow> (err, w'', evs @ evs')))"

subsection \<open>The job\<close>

text \<open>
  The collaborators of the job. \<open>model.FindOneProjectRef\<close> returns a pointer, which may be
  nil without an error (\<open>Inr None\<close>). \<open>Now\<close> is \<open>time.Now\<close>.
\<close>

record 'w projectEnv =
  FindOneProjectRef :: "string \<Rightarrow> 'w \<Rightarrow> (error + ProjectRef option) \<times> 'w"

record 'w env = "'w projectEnv" +
  Now :: "'w \<Rightarrow> time \<times> 'w"
  GetStatsStatus :: "string \<Rightarrow> 'w \<Rightarrow> (error + StatsStatus) \<times> 'w"
  Compile :: compiler
  FindStatsToUpdate :: "string \<Rightarrow> time \<Rightarrow> time \<Rightarrow> 'w \<Rightarrow> (error + StatsToUpdate list) \<times> 'w"
  GenerateHourlyTestStats :: "'w generateStatsFn"
  GenerateDailyTestStatsFromHourly :: "'w generateStatsFn"
  GenerateDailyTaskStats :: "'w generateStatsFn"
  UpdateStatsStatus :: "string \<Rightarrow> time \<Rightarrow> time \<Rightarrow> 'w \<Rightarrow> error option \<times> 'w"

text \<open>A function returns a value or panics (a nil pointer is dereferenced).\<close>

datatype 'a outcome = Returned 'a | Panicked

definition getTasksToIgnore ::
  "'w env \<Rightarrow> string \<Rightarrow> 'w \<Rightarrow> (error + Regexp list) outcome \<times> 'w \<times> event list" where
  "getTasksToIgnore env projectId w =
     (case FindOneProjectRef env projectId w of
        (res, w') \<Rightarrow>
          (let evs = [FindOneProjectRefEv projectId res] in
           case res of
             Inl err \<Rightarrow> (Returned (Inl (Wrapped err ''Could not get project ref'')), w', evs)
           | Inr None \<Rightarrow> (Panicked, w', evs)
           | Inr (Some ref) \<Rightarrow>
               (Returned (createRegexpFromStrings (Compile env) (FilesIgnoredFromCache ref)),
                w', evs)))"

text \<open>
  What a run leaves behind: the world, the calls made to the collaborators, the errors added
  to the job with \<open>AddError\<close>, whether the job is marked complete (\<open>MarkComplete\<close> is
  deferred, so it also runs when the run panics) and whether the run panicked.
\<close>

record 'w jobRun =
  jobWorld :: 'w
  jobEvents :: "event list"
  jobErrors :: "error list"
  jobComplete :: bool
  jobPanicked :: bool

definition returned :: "'w \<Rightarrow> event list \<Rightarrow> error list \<Rightarrow> 'w jobRun" where
  "returned w evs errs =
     \<lparr>jobWorld = w, jobEvents = evs, jobErrors = errs, jobComplete = True, jobPanicked = False\<rparr>"

definition panicked :: "'w \<Rightarrow> event list \<Rightarrow> 'w jobRun" where
  "panicked w evs =
     \<lparr>jobWorld = w, jobEvents = evs, jobErrors = [], jobComplete = True, jobPanicked = True\<rparr>"

text \<open>
  The two tables that \<open>Run\<close> builds. The table of daily generators has two entries,
  which a \<open>range\<close> visits in one of two orders.
\<close>

definition generateMap :: "'w env \<Rightarrow> rangeOrder \<Rightarrow> 'w generateFunctions" where
  "generateMap env ord =
     \<lparr>HourlyFns = [(''test'', GenerateHourlyTestStats env)],
      DailyFns =
        (if dailyTaskFirst ord
         then [(''task'', GenerateDailyTaskStats env),
               (''test'', GenerateDailyTestStatsFromHourly env)]
         else [(''test'', GenerateDailyTestStatsFromHourly env),
               (''task'', GenerateDailyTaskStats env)])\<rparr>"

text \<open>
  \<open>Run\<close> of the job of project \<open>jProjectId\<close>. The clock is read twice: for
  \<open>JobTime\<close>, and by \<open>findTargetTimeForSync\<close>. \<open>grip.Info\<close> only logs and is left out.
\<close>

definition Run :: "'w env \<Rightarrow> rangeOrder \<Rightarrow> string \<Rightarrow> 'w \<Rightarrow> 'w jobRun" where
  "Run env ord jProjectId w0 =
     (case GetStatsStatus env jProjectId w0 of (res1, w1) \<Rightarrow>
      (let evs1 = [GetStatsStatusEv jProjectId res1] in
       case res1 of
         Inl err \<Rightarrow> returned w1 evs1 [Wrapped err ''error retrieving last sync date'']
       | Inr statsStatus \<Rightarrow>
      (case getTasksToIgnore env jProjectId w1 of
         (Panicked, w2, evs2) \<Rightarrow> panicked w2 (evs1 @ evs2)
       | (Returned (Inl err), w2, evs2) \<Rightarrow>
           returned w2 (evs1 @ evs2) [Wrapped err ''error retrieving project settings'']
       | (Returned (Inr tasksToIgnore), w2, evs2) \<Rightarrow>
      (case Now env w2 of (jobTime, w3) \<Rightarrow>
      (let jobContext = \<lparr>ctxProjectId = jProjectId, JobTime = jobTime,
                          TasksToIgnore = tasksToIgnore\<rparr>;
           syncFromTime = ProcessedTasksUntil statsStatus in
       case Now env w3 of (now, w4) \<Rightarrow>
      (let syncToTime = findTargetTimeForSync now syncFromTime in
       case FindStatsToUpdate env jProjectId syncFromTime syncToTime w4 of (res5, w5) \<Rightarrow>
      (let evs5 = evs1 @ evs2 @ [NowEv jobTime, NowEv now,
                    FindStatsToUpdateEv jProjectId syncFromTime syncToTime res5] in
       case res5 of
         Inl err \<Rightarrow> returned w5 evs5 [Wrapped err ''error finding tasks to update'']
       | Inr statsToUpdate \<Rightarrow>
      (case updateHourlyAndDailyStats jobContext ord statsToUpdate (generateMap env ord) w5 of
         (Some err, w6, evs6) \<Rightarrow>
           returned w6 (evs5 @ map generateEv evs6)
             [Wrapped err ''error generating hourly test stats'']
       | (None, w6, evs6) \<Rightarrow>
      (case UpdateStatsStatus env jProjectId (JobTime jobContext) syncToTime w6 of
         (res7, w7) \<Rightarrow>
      (let evs7 = evs5 @ map generateEv evs6 @
                    [UpdateStatsStatusEv jProjectId (JobTime jobContext) syncToTime res7] in
       case res7 of
         Some err \<Rightarrow> returned w7 evs7 [Wrapped err ''error updating last synced date'']
       | None \<Rightarrow> returned w7 evs7 []))))))))))"

subsection \<open>Describing the calls of a dispatch\<close>

text \<open>
  The call that the hourly stage makes for a unit, and the calls it makes for a list of
  units under one generator name: one for each unit whose filtered task list is not empty,
  in the order of the units. \<open>hourlyPlan\<close> lists them for all the names of a table.
\<close>

definition hourlyCall :: "cacheHistoricalJobContext \<Rightarrow> string \<Rightarrow> StatsToUpdate \<Rightarrow> genCall" where
  "hourlyCall c name stat =
     \<lparr>call_stage = Hourly, call_displayName = name,
      call_projectId = ProjectId stat, call_requester = Requester stat,
      call_timePeriod = Hour stat,
      call_tasks = filterIgnoredTasks (Tasks stat) (TasksToIgnore c),
      call_jobDate = JobTime c\<rparr>"

definition hourlyCalls ::
  "cacheHistoricalJobContext \<Rightarrow> string \<Rightarrow> StatsToUpdate list \<Rightarrow> genCall list" where
  "hourlyCalls c name stats =
     map (hourlyCall c name)
       (filter (\<lambda>stat. filterIgnoredTasks (Tasks stat) (TasksToIgnore c) \<noteq> []) stats)"

definition hourlyPlan ::
  "cacheHistoricalJobContext \<Rightarrow> StatsToUpdate list \<Rightarrow> string list \<Rightarrow> genCall list" where
  "hourlyPlan c stats names = concat (map (\<lambda>name. hourlyCalls c name stats) names)"

text \<open>
  A daily call made for a bucket of a rollup: day and requester are a key of the rollup, and
  the tasks are the filtered tasks of that bucket, not empty.
\<close>

definition fromBucket :: "cacheHistoricalJobContext \<Rightarrow> dailyStatsRollup \<Rightarrow> genCall \<Rightarrow> bool" where
  "fromBucket c rollup call \<longleftrightarrow>
     call_stage call = Daily \<and> call_projectId call = ctxProjectId c \<and>
     call_jobDate call = JobTime c \<and> call_tasks call \<noteq> [] \<and>
     map_option (\<lambda>ts. filterIgnoredTasks ts (TasksToIgnore c))
       (bucket rollup (call_timePeriod call) (call_requester call)) = Some (call_tasks call)"

definition inStage :: "stage \<Rightarrow> genEvent \<Rightarrow> bool" where
  "inStage s e \<longleftrightarrow> call_stage (fst e) = s"

definition succeeded :: "genEvent \<Rightarrow> bool" where
  "succeeded e \<longleftrightarrow> snd e = None"

text \<open>The error a stage returns for a call: what the call returned, wrapped.\<close>

definition wrapped :: "genEvent \<Rightarrow> error option" where
  "wrapped e =
     Wrap (snd e)
       (case call_stage (fst e) of
          Hourly \<Rightarrow> ''Could not sync hourly stats''
        | Daily \<Rightarrow> ''Could not sync daily stats'')"

definition dispatchError :: "genEvent list \<Rightarrow> error option" where
  "dispatchError evs = (if evs = [] then None else wrapped (last evs))"

text \<open>
  A stage is fail-fast: every call but the last succeeded, and the error the stage returns
  is that of the last call (nil if it succeeded or there was no call).
\<close>

definition stageOk :: "genEvent list \<Rightarrow> error option \<Rightarrow> bool" where
  "stageOk evs err \<longleftrightarrow> list_all succeeded (butlast evs) \<and> err = dispatchError evs"

text \<open>A daily call made for a requester of one day of a rollup.\<close>

definition fromRequester ::
  "cacheHistoricalJobContext \<Rightarrow> time \<Rightarrow> (string \<rightharpoonup> string list) \<Rightarrow> genEvent \<Rightarrow> bool" where
  "fromRequester c day stats e \<longleftrightarrow>
     call_stage (fst e) = Daily \<and> call_projectId (fst e) = ctxProjectId c \<and>
     call_jobDate (fst e) = JobTime c \<and> call_tasks (fst e) \<noteq> [] \<and>
     call_timePeriod (fst e) = day \<and>
     map_option (\<lambda>ts. filterIgnoredTasks ts (TasksToIgnore c)) (stats (call_requester (fst e)))
       = Some (call_tasks (fst e))"

subsection \<open>Examples of collaborators\<close>

text \<open>
  Small collaborators on which the functions above can be run: generator functions that
  always succeed or always fail, a matcher for the names that start with a prefix, and a
  compiler that rejects the pattern \<open>([\<close> and reads every other pattern as a circumflex
  followed by a literal prefix.
\<close>

definition succeedingFn :: "'w generateStatsFn" where
  "succeedingFn p r t ts jd w = (None, w)"

definition failingFn :: "'w generateStatsFn" where
  "failingFn p r t ts jd w = (Some (Err ''boom''), w)"

definition startsWith :: "string \<Rightarrow> Regexp" where
  "startsWith pre = Regexp (\<lambda>s. take (length pre) s = pre)"

definition exampleCompile :: compiler where
  "exampleCompile pattern =
     (if pattern = ''(['' then Inl (Err ''missing closing ]'')
      else Inr (startsWith (tl pattern)))"

definition exampleContext :: cacheHistoricalJobContext where
  "exampleContext =
     \<lparr>ctxProjectId = ''p'', JobTime = 99, TasksToIgnore = [startsWith ''gen_'']\<rparr>"

definition exampleUnits :: "StatsToUpdate list" where
  "exampleUnits =
     [\<lparr>ProjectId = ''p'', Requester = ''patch'', Hour = 10, Day = 0,
       Tasks = [''gen_x'', ''keep_y'']\<rparr>,
      \<lparr>ProjectId = ''p'', Requester = ''patch'', Hour = 11, Day = 0, Tasks = [''gen_z'']\<rparr>,
      \<lparr>ProjectId = ''p'', Requester = ''patch'', Hour = 12, Day = 0, Tasks = [''keep_y'']\<rparr>]"

definition exampleOrder :: rangeOrder where
  "exampleOrder =
     \<lparr>dayOrder = (\<lambda>name. [0]), requesterOrder = (\<lambda>name day. [''patch'']),
      dailyTaskFirst = False\<rparr>"

text \<open>
  A world with a clock that stands still during a run, a checkpoint store holding the
  checkpoint of the one project, a statistics source that returns \<open>exampleUnits\<close> or
  fails, and generators that succeed or fail together, as the world says, as are the ignore
  patterns of the project.
\<close>

record exampleWorld =
  clock :: time
  checkpoint :: time
  ignorePatterns :: "string list"
  fetchFails :: bool
  generatorsFail :: bool

definition exampleFn :: "exampleWorld generateStatsFn" where
  "exampleFn p r t ts jd w = (if generatorsFail w then Some (Err ''boom'') else None, w)"

definition exampleEnv :: "exampleWorld env" where
  "exampleEnv =
     \<lparr>FindOneProjectRef = (\<lambda>p w.
        (Inr (Some \<lparr>Identifier = p, refBranch = ''main'',
                     FilesIgnoredFromCache = ignorePatterns w\<rparr>), w)),
      Now = (\<lambda>w. (clock w, w)),
      GetStatsStatus = (\<lambda>p w. (Inr \<lparr>ProcessedTasksUntil = checkpoint w\<rparr>, w)),
      Compile = exampleCompile,
      FindStatsToUpdate = (\<lambda>p from to w.
        (if fetchFails w then Inl (Err ''no connection'') else Inr exampleUnits, w)),
      GenerateHourlyTestStats = exampleFn,
      GenerateDailyTestStatsFromHourly = exampleFn,
      GenerateDailyTaskStats = exampleFn,
      UpdateStatsStatus = (\<lambda>p jobTime to w. (None, w\<lparr>checkpoint := to\<rparr>))\<rparr>"

subsection \<open>Reading the calls of a run\<close>

text \<open>
  From the calls of a run, in order: the clock readings, the checkpoints read, the windows
  fetched (project, from, to) and the checkpoint updates (project, job time, processed
  until).
\<close>

fun clockReading :: "event \<Rightarrow> time list" where
  "clockReading (NowEv t) = [t]"
| "clockReading _ = []"

fun checkpointRead :: "event \<Rightarrow> time list" where
  "checkpointRead (GetStatsStatusEv p (Inr status)) = [ProcessedTasksUntil status]"
| "checkpointRead _ = []"

fun windowFetched :: "event \<Rightarrow> (string \<times> time \<times> time) list" where
  "windowFetched (FindStatsToUpdateEv p from to res) = [(p, from, to)]"
| "windowFetched _ = []"

fun checkpointUpdate :: "event \<Rightarrow> (string \<times> time \<times> time) list" where
  "checkpointUpdate (UpdateStatsStatusEv p jobTime to res) = [(p, jobTime, to)]"
| "checkpointUpdate _ = []"

definition clockReadings :: "event list \<Rightarrow> time list" where
  "clockReadings evs = concat (map clockReading evs)"

definition checkpointsRead :: "event list \<Rightarrow> time list" where
  "checkpointsRead evs = concat (map checkpointRead evs)"

definition windowsFetched :: "event list \<Rightarrow> (string \<times> time \<times> time) list" where
  "windowsFetched evs = concat (map windowFetched evs)"

definition checkpointUpdates :: "event list \<Rightarrow> (string \<times> time \<times> time) list" where
  "checkpointUpdates evs = concat (map checkpointUpdate evs)"

text \<open>
  A pass is fully successful when the patterns of a project reference that was found
  compiled, the units were fetched, and no generator call returned an error.
\<close>

fun compiledOk :: "compiler \<Rightarrow> event \<Rightarrow> bool" where
  "compiledOk compile (FindOneProjectRefEv p (Inr (Some ref))) =
     (case createRegexpFromStrings compile (FilesIgnoredFromCache ref) of
        Inl err \<Rightarrow> False | Inr tasksToIgnore \<Rightarrow> True)"
| "compiledOk compile _ = False"

fun fetchedOk :: "event \<Rightarrow> bool" where
  "fetchedOk (FindStatsToUpdateEv p from to (Inr statsToUpdate)) = True"
| "fetchedOk _ = False"

fun generateFailed :: "event \<Rightarrow> bool" where
  "generateFailed (GenerateEv call (Some err)) = True"
| "generateFailed _ = False"

definition fullySuccessful :: "compiler \<Rightarrow> event list \<Rightarrow> bool" where
  "fullySuccessful compile evs \<longleftrightarrow>
     list_ex (compiledOk compile) evs \<and> list_ex fetchedOk evs \<and> \<not> list_ex generateFailed evs"

subsection \<open>Describing the compilation of the patterns\<close>



subsection \<open>The filter of the specification\<close>

text \<open>
  The specification describes filtering as a step of its own (\<open>Filter\<close> of the
  RollupBuilder): for each unit, remove the task names matched by the matcher; drop the units
  whose task list becomes empty. The source has no such function; this definition follows the
  specification's words, to be compared with what the source does.
\<close>

definition filterUnit :: "Regexp list \<Rightarrow> StatsToUpdate \<Rightarrow> StatsToUpdate" where
  "filterUnit tasksToIgnore stat = stat\<lparr>Tasks := filterIgnoredTasks (Tasks stat) tasksToIgnore\<rparr>"

definition Filter_spec :: "Regexp list \<Rightarrow> StatsToUpdate list \<Rightarrow> StatsToUpdate list" where
  "Filter_spec tasksToIgnore hourlyStats =
     filter (\<lambda>stat. Tasks stat \<noteq> []) (map (filterUnit tasksToIgnore) hourlyStats)"

section \<open>The manifest endpoint (service/api\_plugin\_manifest.go)\<close>

subsection \<open>Data and collaborators\<close>

text \<open>
  The fields that the handler reads or writes: of the task of the request, of a module a
  project declares (\<open>model.Module\<close>), of the project, of a module of a manifest
  (\<open>manifest.Module\<close>), of a manifest, and of the branch that the source-control API
  returns, whose commit, SHA and URL are pointers that may be nil.
\<close>

record Task =
  Project :: string
  Version :: string
  taskRevision :: string

record projectModule =
  Name :: string
  moduleBranch :: string
  moduleRepo :: string

record Project =
  projectModules :: "projectModule list"

record manifestModule =
  modBranch :: string
  modRevision :: string
  modRepo :: string
  modOwner :: string
  modURL :: string

record Manifest =
  Id :: string
  Revision :: string
  ProjectName :: string
  Branch :: string
  Modules :: "string \<rightharpoonup> manifestModule"

record RepositoryCommit =
  SHA :: "string option"
  URL :: "string option"

record githubBranch =
  Commit :: "RepositoryCommit option"





text \<open>The calls a request makes to the stateful collaborators, each with its result.\<close>

datatype apiEvent =
    ProjectRefEv string "error + ProjectRef option"
  | FindProjectEv "ProjectRef option" "error + Project option"
  | FindOneEv string "error + Manifest option"
  | GetBranchEventEv string string string string "error + githubBranch option"
  | TryInsertEv Manifest "error + bool"

subsection \<open>The handler\<close>




subsection \<open>Reading the calls of a request\<close>

text \<open>
  From the calls of a request, in order: the results of the manifest lookups, the
  branch-head queries (owner, repository, branch) and the inserts with their results.
\<close>

fun lookup :: "apiEvent \<Rightarrow> (error + Manifest option) list" where
  "lookup (FindOneEv v res) = [res]"
| "lookup _ = []"

fun branchQuery :: "apiEvent \<Rightarrow> (string \<times> string \<times> string) list" where
  "branchQuery (GetBranchEventEv token owner repo branch res) = [(owner, repo, branch)]"
| "branchQuery _ = []"

fun insert_attempt :: "apiEvent \<Rightarrow> (Manifest \<times> (error + bool)) list" where
  "insert_attempt (TryInsertEv m res) = [(m, res)]"
| "insert_attempt _ = []"

definition lookups :: "apiEvent list \<Rightarrow> (error + Manifest option) list" where
  "lookups evs = concat (map lookup evs)"

definition branchQueries :: "apiEvent list \<Rightarrow> (string \<times> string \<times> string) list" where
  "branchQueries evs = concat (map branchQuery evs)"

definition inserts :: "apiEvent list \<Rightarrow> (Manifest \<times> (error + bool)) list" where
  "inserts evs = concat (map insert_attempt evs)"


subsection \<open>An example of the collaborators of the handler\<close>









section \<open>Properties of the cache job\<close>

subsection \<open>Filtering and the rollup\<close>

lemma anyRegexMatch_iff: "anyRegexMatch v rs \<longleftrightarrow> (\<exists>r \<in> set rs. MatchString r v)"
  by (induction rs) auto

lemma filterLoop_eq:
  "filterLoop ts rs acc = acc @ filter (\<lambda>t. \<not> anyRegexMatch t rs) ts"
  by (induction ts arbitrary: acc) auto

lemma filterIgnoredTasks_eq:
  "filterIgnoredTasks ts rs = filter (\<lambda>t. \<not> anyRegexMatch t rs) ts"
  by (simp add: filterIgnoredTasks_def filterLoop_eq)

lemma bucket_rollupStep:
  "bucket (rollupStep m u) d r =
     (if Day u = d \<and> Requester u = r
      then Some (bucketTasks m d r @ Tasks u)
      else bucket m d r)"
  by (auto simp: rollupStep_def bucket_def bucketTasks_def Let_def split: option.splits)

lemma bucket_rollupLoop:
  "bucket (rollupLoop m us) d r =
     (if unitsOf d r us = [] then bucket m d r
      else Some (bucketTasks m d r @ concat (map Tasks (unitsOf d r us))))"
proof (induction us arbitrary: m)
  case Nil
  show ?case by (simp add: unitsOf_def)
next
  case (Cons u us)
  show ?case
    by (simp add: Cons.IH bucket_rollupStep bucketTasks_def unitsOf_def)
qed

lemma bucket_buildDailyStatsRollup:
  "bucket (buildDailyStatsRollup us) d r =
     (if unitsOf d r us = [] then None else Some (concat (map Tasks (unitsOf d r us))))"
proof -
  have "bucket Map.empty d r = None" and "bucketTasks Map.empty d r = []"
    by (simp_all add: bucket_def bucketTasks_def)
  then show ?thesis
    unfolding buildDailyStatsRollup_def bucket_rollupLoop by simp
qed

lemma bucketTasks_buildDailyStatsRollup:
  "bucketTasks (buildDailyStatsRollup us) d r = concat (map Tasks (unitsOf d r us))"
  by (simp add: bucketTasks_def bucket_buildDailyStatsRollup)

lemma filterIgnoredTasks_append:
  "filterIgnoredTasks (xs @ ys) rs = filterIgnoredTasks xs rs @ filterIgnoredTasks ys rs"
  by (simp add: filterIgnoredTasks_eq)

lemma filterIgnoredTasks_concat:
  "filterIgnoredTasks (concat xss) rs = concat (map (\<lambda>xs. filterIgnoredTasks xs rs) xss)"
  by (induction xss) (simp_all add: filterIgnoredTasks_append, simp add: filterIgnoredTasks_eq)

lemma unitsOf_map_filterUnit:
  "unitsOf d r (map (filterUnit rs) us) = map (filterUnit rs) (unitsOf d r us)"
  by (induction us) (simp_all add: unitsOf_def filterUnit_def)

lemma concat_Tasks_Filter_spec:
  "concat (map Tasks (unitsOf d r (Filter_spec rs us)))
     = concat (map (\<lambda>u. filterIgnoredTasks (Tasks u) rs) (unitsOf d r us))"
  by (induction us) (simp_all add: unitsOf_def Filter_spec_def filterUnit_def)

subsection \<open>Dispatch: every stage is fail-fast and calls what it plans\<close>

lemma dispatchError_Cons:
  "dispatchError (e # evs) = (if evs = [] then wrapped e else dispatchError evs)"
  by (simp add: dispatchError_def)

lemma wrapped_None_iff [simp]:
  "wrapped e = None \<longleftrightarrow> succeeded e" "None = wrapped e \<longleftrightarrow> succeeded e"
  by (auto simp: wrapped_def succeeded_def Wrap_def split: option.splits)

lemma stageOk_Nil: "stageOk [] None"
  by (simp add: stageOk_def dispatchError_def)

lemma stageOk_single: "stageOk [e] err \<longleftrightarrow> err = wrapped e"
  by (simp add: stageOk_def dispatchError_def)

lemma stageOk_Cons: "succeeded e \<Longrightarrow> stageOk evs err \<Longrightarrow> stageOk (e # evs) err"
  by (auto simp: stageOk_def dispatchError_def)

lemma stageOk_all: "stageOk evs None \<Longrightarrow> list_all succeeded evs"
  by (cases evs rule: rev_cases) (auto simp: stageOk_def dispatchError_def wrapped_None_iff)

lemma stageOk_append: "stageOk evs None \<Longrightarrow> stageOk evs' err \<Longrightarrow> stageOk (evs @ evs') err"
  apply (frule stageOk_all)
  apply (cases evs' rule: rev_cases)
   apply (auto simp: stageOk_def dispatchError_def butlast_append)
  done

lemma iteratorOverHourlyStats_props:
  "iteratorOverHourlyStats c stats fn name w = (err, w', evs) \<Longrightarrow>
     prefix (map fst evs) (hourlyCalls c name stats) \<and>
     (err = None \<longrightarrow> map fst evs = hourlyCalls c name stats) \<and>
     stageOk evs err \<and> list_all (inStage Hourly) evs"
proof (induction stats arbitrary: w err w' evs)
  case Nil
  then show ?case by (simp add: hourlyCalls_def stageOk_Nil)
next
  case (Cons stat stats)
  show ?case
  proof (cases "filterIgnoredTasks (Tasks stat) (TasksToIgnore c) = []")
    case True
    with Cons.prems have "iteratorOverHourlyStats c stats fn name w = (err, w', evs)"
      by simp
    from Cons.IH [OF this] True show ?thesis
      by (simp add: hourlyCalls_def)
  next
    case False
    obtain res w1 where fn: "fn (ProjectId stat) (Requester stat) (Hour stat)
        (filterIgnoredTasks (Tasks stat) (TasksToIgnore c)) (JobTime c) w = (res, w1)"
      by (cases "fn (ProjectId stat) (Requester stat) (Hour stat)
        (filterIgnoredTasks (Tasks stat) (TasksToIgnore c)) (JobTime c) w")
    let ?ev = "(hourlyCall c name stat, res)"
    have st: "inStage Hourly ?ev" by (simp add: inStage_def hourlyCall_def)
    have wr: "wrapped ?ev = Wrap res ''Could not sync hourly stats''"
      by (simp add: wrapped_def hourlyCall_def)
    show ?thesis
    proof (cases res)
      case None
      obtain err2 w2 evs2 where rec: "iteratorOverHourlyStats c stats fn name w1 = (err2, w2, evs2)"
        by (cases "iteratorOverHourlyStats c stats fn name w1")
      from Cons.prems False fn None rec have eq: "err = err2" "w' = w2" "evs = ?ev # evs2"
        by (simp_all add: Let_def Wrap_def hourlyCall_def)
      from Cons.IH [OF rec] False None wr st show ?thesis
        unfolding eq by (simp add: hourlyCalls_def stageOk_Cons succeeded_def)
    next
      case (Some e)
      from Cons.prems False fn Some have eq: "err = wrapped ?ev" "evs = [?ev]"
        by (auto simp add: Let_def Wrap_def hourlyCall_def wrapped_def)
      from False Some wr st show ?thesis
        unfolding eq by (simp add: hourlyCalls_def stageOk_single Wrap_def)
    qed
  qed
qed

lemma overHourlyFns_props:
  "overHourlyFns c stats fns w = (err, w', evs) \<Longrightarrow>
     prefix (map fst evs) (hourlyPlan c stats (map fst fns)) \<and>
     (err = None \<longrightarrow> map fst evs = hourlyPlan c stats (map fst fns)) \<and>
     stageOk evs err \<and> list_all (inStage Hourly) evs"
proof (induction fns arbitrary: w err w' evs)
  case Nil
  then show ?case by (simp add: hourlyPlan_def stageOk_Nil)
next
  case (Cons nf fns)
  obtain name genFn where nf: "nf = (name, genFn)" by (cases nf)
  obtain e1 w1 evs1 where it: "iteratorOverHourlyStats c stats genFn name w = (e1, w1, evs1)"
    by (cases "iteratorOverHourlyStats c stats genFn name w")
  note p1 = iteratorOverHourlyStats_props [OF it]
  show ?case
  proof (cases e1)
    case (Some e)
    with Cons.prems nf it have eq: "err = e1" "evs = evs1" by simp_all
    from p1 Some show ?thesis
      unfolding eq nf by (simp add: hourlyPlan_def prefix_prefix)
  next
    case None
    obtain e2 w2 evs2 where rec: "overHourlyFns c stats fns w1 = (e2, w2, evs2)"
      by (cases "overHourlyFns c stats fns w1")
    from Cons.prems nf it None rec have eq: "err = e2" "evs = evs1 @ evs2" by simp_all
    from p1 None Cons.IH [OF rec] show ?thesis
      unfolding eq nf by (simp add: hourlyPlan_def stageOk_append)
  qed
qed

lemma overRequesters_props:
  "overRequesters c day stats rs fn name w = (err, w', evs) \<Longrightarrow>
     stageOk evs err \<and> list_all (fromRequester c day stats) evs"
proof (induction rs arbitrary: w err w' evs)
  case Nil
  then show ?case by (simp add: stageOk_Nil)
next
  case (Cons r rs)
  show ?case
  proof (cases "stats r")
    case None
    with Cons.prems have "overRequesters c day stats rs fn name w = (err, w', evs)" by simp
    from Cons.IH [OF this] show ?thesis .
  next
    case (Some ts)
    show ?thesis
    proof (cases "filterIgnoredTasks ts (TasksToIgnore c) = []")
      case True
      with Cons.prems Some have "overRequesters c day stats rs fn name w = (err, w', evs)"
        by simp
      from Cons.IH [OF this] show ?thesis .
    next
      case False
      let ?call = "\<lparr>call_stage = Daily, call_displayName = name,
                    call_projectId = ctxProjectId c, call_requester = r,
                    call_timePeriod = day,
                    call_tasks = filterIgnoredTasks ts (TasksToIgnore c),
                    call_jobDate = JobTime c\<rparr>"
      obtain res w1 where fn: "fn (ctxProjectId c) r day
          (filterIgnoredTasks ts (TasksToIgnore c)) (JobTime c) w = (res, w1)"
        by (cases "fn (ctxProjectId c) r day
          (filterIgnoredTasks ts (TasksToIgnore c)) (JobTime c) w")
      have fr: "fromRequester c day stats (?call, res)"
        using Some False by (simp add: fromRequester_def)
      show ?thesis
      proof (cases res)
        case None
        obtain e2 w2 evs2 where rec: "overRequesters c day stats rs fn name w1 = (e2, w2, evs2)"
          by (cases "overRequesters c day stats rs fn name w1")
        from Cons.prems Some False fn None rec
        have eq: "err = e2" "evs = (?call, res) # evs2"
          by (simp_all add: Let_def Wrap_def)
        from Cons.IH [OF rec] fr None show ?thesis
          unfolding eq by (simp add: stageOk_Cons succeeded_def)
      next
        case (Some e)
        from Cons.prems \<open>stats r = Some ts\<close> False fn Some
        have eq: "err = wrapped (?call, res)" "evs = [(?call, res)]"
          by (auto simp add: Let_def Wrap_def wrapped_def)
        from fr show ?thesis
          unfolding eq by (simp add: stageOk_single)
      qed
    qed
  qed
qed

lemma fromRequester_fromBucket:
  "dailyStats day = Some stats \<Longrightarrow> fromRequester c day stats e \<Longrightarrow> fromBucket c dailyStats (fst e)"
  by (simp add: fromRequester_def fromBucket_def bucket_def)

lemma overDays_props:
  "overDays c dailyStats requestersOf days fn name w = (err, w', evs) \<Longrightarrow>
     stageOk evs err \<and> list_all (\<lambda>e. fromBucket c dailyStats (fst e)) evs"
proof (induction days arbitrary: w err w' evs)
  case Nil
  then show ?case by (simp add: stageOk_Nil)
next
  case (Cons day days)
  show ?case
  proof (cases "dailyStats day")
    case None
    with Cons.prems have "overDays c dailyStats requestersOf days fn name w = (err, w', evs)"
      by simp
    from Cons.IH [OF this] show ?thesis .
  next
    case (Some stats)
    obtain e1 w1 evs1 where it:
      "overRequesters c day stats (requestersOf day) fn name w = (e1, w1, evs1)"
      by (cases "overRequesters c day stats (requestersOf day) fn name w")
    from overRequesters_props [OF it]
    have p1: "stageOk evs1 e1" "list_all (\<lambda>e. fromBucket c dailyStats (fst e)) evs1"
      using fromRequester_fromBucket [of dailyStats day stats c] Some
      by (auto simp: list_all_iff)
    show ?thesis
    proof (cases e1)
      case (Some e)
      with Cons.prems \<open>dailyStats day = Some stats\<close> it have eq: "err = e1" "evs = evs1"
        by simp_all
      from p1 show ?thesis unfolding eq by simp
    next
      case None
      obtain e2 w2 evs2 where rec:
        "overDays c dailyStats requestersOf days fn name w1 = (e2, w2, evs2)"
        by (cases "overDays c dailyStats requestersOf days fn name w1")
      from Cons.prems Some it None rec have eq: "err = e2" "evs = evs1 @ evs2" by simp_all
      from p1 None Cons.IH [OF rec] show ?thesis
        unfolding eq by (simp add: stageOk_append)
    qed
  qed
qed

lemma overDailyFns_props:
  "overDailyFns c ord dailyStats fns w = (err, w', evs) \<Longrightarrow>
     stageOk evs err \<and> list_all (\<lambda>e. fromBucket c dailyStats (fst e)) evs"
proof (induction fns arbitrary: w err w' evs)
  case Nil
  then show ?case by (simp add: stageOk_Nil)
next
  case (Cons nf fns)
  obtain name genFn where nf: "nf = (name, genFn)" by (cases nf)
  obtain e1 w1 evs1 where it: "iteratorOverDailyStats c ord dailyStats genFn name w = (e1, w1, evs1)"
    by (cases "iteratorOverDailyStats c ord dailyStats genFn name w")
  from overDays_props [OF it [unfolded iteratorOverDailyStats_def]]
  have p1: "stageOk evs1 e1" "list_all (\<lambda>e. fromBucket c dailyStats (fst e)) evs1"
    by simp_all
  show ?case
  proof (cases e1)
    case (Some e)
    with Cons.prems nf it have eq: "err = e1" "evs = evs1" by simp_all
    from p1 show ?thesis unfolding eq by simp
  next
    case None
    obtain e2 w2 evs2 where rec: "overDailyFns c ord dailyStats fns w1 = (e2, w2, evs2)"
      by (cases "overDailyFns c ord dailyStats fns w1")
    from Cons.prems nf it None rec have eq: "err = e2" "evs = evs1 @ evs2" by simp_all
    from p1 None Cons.IH [OF rec] show ?thesis
      unfolding eq by (simp add: stageOk_append)
  qed
qed

lemma updateHourlyAndDailyStats_props:
  assumes "updateHourlyAndDailyStats c ord stats fns w = (err, w', evs)"
  shows "\<exists>hs ds. evs = hs @ ds \<and>
     list_all (inStage Hourly) hs \<and>
     list_all (\<lambda>e. fromBucket c (buildDailyStatsRollup stats) (fst e)) ds \<and>
     prefix (map fst hs) (hourlyPlan c stats (map fst (HourlyFns fns))) \<and>
     (ds \<noteq> [] \<or> err = None \<longrightarrow>
        map fst hs = hourlyPlan c stats (map fst (HourlyFns fns)) \<and> list_all succeeded hs) \<and>
     stageOk evs err"
proof -
  obtain e1 w1 hs where h: "overHourlyFns c stats (HourlyFns fns) w = (e1, w1, hs)"
    by (cases "overHourlyFns c stats (HourlyFns fns) w")
  note p1 = overHourlyFns_props [OF h]
  show ?thesis
  proof (cases e1)
    case (Some e)
    with assms h have eq: "err = e1" "evs = hs"
      by (simp_all add: updateHourlyAndDailyStats_def)
    from p1 Some show ?thesis
      unfolding eq by (intro exI [of _ hs] exI [of _ "[]"]) simp
  next
    case None
    obtain e2 w2 ds where d:
      "overDailyFns c ord (buildDailyStatsRollup stats) (DailyFns fns) w1 = (e2, w2, ds)"
      by (cases "overDailyFns c ord (buildDailyStatsRollup stats) (DailyFns fns) w1")
    from assms h None d have eq: "err = e2" "evs = hs @ ds"
      by (simp_all add: updateHourlyAndDailyStats_def)
    from p1 None have "list_all succeeded hs" by (simp add: stageOk_all)
    with p1 None overDailyFns_props [OF d] show ?thesis
      unfolding eq by (intro exI [of _ hs] exI [of _ ds]) (simp add: stageOk_append)
  qed
qed

subsection \<open>The paths of a run\<close>

lemma Run_cases:
  fixes env :: "'w env"
  obtains
    (status_error) err wa where
      "GetStatsStatus env p w0 = (Inl err, wa)"
      "Run env ord p w0 = returned wa [GetStatsStatusEv p (Inl err)]
          [Wrapped err ''error retrieving last sync date'']"
  | (ref_error) status err wa wb where
      "GetStatsStatus env p w0 = (Inr status, wa)"
      "FindOneProjectRef env p wa = (Inl err, wb)"
      "Run env ord p w0 = returned wb
          [GetStatsStatusEv p (Inr status), FindOneProjectRefEv p (Inl err)]
          [Wrapped (Wrapped err ''Could not get project ref'') ''error retrieving project settings'']"
  | (ref_nil) status wa wb where
      "GetStatsStatus env p w0 = (Inr status, wa)"
      "FindOneProjectRef env p wa = (Inr None, wb)"
      "Run env ord p w0 = panicked wb
          [GetStatsStatusEv p (Inr status), FindOneProjectRefEv p (Inr None)]"
  | (compile_error) status ref err wa wb where
      "GetStatsStatus env p w0 = (Inr status, wa)"
      "FindOneProjectRef env p wa = (Inr (Some ref), wb)"
      "createRegexpFromStrings (Compile env) (FilesIgnoredFromCache ref) = Inl err"
      "Run env ord p w0 = returned wb
          [GetStatsStatusEv p (Inr status), FindOneProjectRefEv p (Inr (Some ref))]
          [Wrapped err ''error retrieving project settings'']"
  | (fetch_error) status ref res jobTime now err wa wb wc wd we where
      "GetStatsStatus env p w0 = (Inr status, wa)"
      "FindOneProjectRef env p wa = (Inr (Some ref), wb)"
      "createRegexpFromStrings (Compile env) (FilesIgnoredFromCache ref) = Inr res"
      "Now env wb = (jobTime, wc)" "Now env wc = (now, wd)"
      "FindStatsToUpdate env p (ProcessedTasksUntil status)
         (findTargetTimeForSync now (ProcessedTasksUntil status)) wd = (Inl err, we)"
      "Run env ord p w0 = returned we
          [GetStatsStatusEv p (Inr status), FindOneProjectRefEv p (Inr (Some ref)),
           NowEv jobTime, NowEv now,
           FindStatsToUpdateEv p (ProcessedTasksUntil status)
             (findTargetTimeForSync now (ProcessedTasksUntil status)) (Inl err)]
          [Wrapped err ''error finding tasks to update'']"
  | (generate_error) status ref res jobTime now us err evs wa wb wc wd we wf where
      "GetStatsStatus env p w0 = (Inr status, wa)"
      "FindOneProjectRef env p wa = (Inr (Some ref), wb)"
      "createRegexpFromStrings (Compile env) (FilesIgnoredFromCache ref) = Inr res"
      "Now env wb = (jobTime, wc)" "Now env wc = (now, wd)"
      "FindStatsToUpdate env p (ProcessedTasksUntil status)
         (findTargetTimeForSync now (ProcessedTasksUntil status)) wd = (Inr us, we)"
      "updateHourlyAndDailyStats \<lparr>ctxProjectId = p, JobTime = jobTime, TasksToIgnore = res\<rparr>
         ord us (generateMap env ord) we = (Some err, wf, evs)"
      "Run env ord p w0 = returned wf
          ([GetStatsStatusEv p (Inr status), FindOneProjectRefEv p (Inr (Some ref)),
            NowEv jobTime, NowEv now,
            FindStatsToUpdateEv p (ProcessedTasksUntil status)
              (findTargetTimeForSync now (ProcessedTasksUntil status)) (Inr us)]
           @ map generateEv evs)
          [Wrapped err ''error generating hourly test stats'']"
  | (updated) status ref res jobTime now us evs resu wa wb wc wd we wf wg where
      "GetStatsStatus env p w0 = (Inr status, wa)"
      "FindOneProjectRef env p wa = (Inr (Some ref), wb)"
      "createRegexpFromStrings (Compile env) (FilesIgnoredFromCache ref) = Inr res"
      "Now env wb = (jobTime, wc)" "Now env wc = (now, wd)"
      "FindStatsToUpdate env p (ProcessedTasksUntil status)
         (findTargetTimeForSync now (ProcessedTasksUntil status)) wd = (Inr us, we)"
      "updateHourlyAndDailyStats \<lparr>ctxProjectId = p, JobTime = jobTime, TasksToIgnore = res\<rparr>
         ord us (generateMap env ord) we = (None, wf, evs)"
      "UpdateStatsStatus env p jobTime
         (findTargetTimeForSync now (ProcessedTasksUntil status)) wf = (resu, wg)"
      "Run env ord p w0 = returned wg
          ([GetStatsStatusEv p (Inr status), FindOneProjectRefEv p (Inr (Some ref)),
            NowEv jobTime, NowEv now,
            FindStatsToUpdateEv p (ProcessedTasksUntil status)
              (findTargetTimeForSync now (ProcessedTasksUntil status)) (Inr us)]
           @ map generateEv evs
           @ [UpdateStatsStatusEv p jobTime
                (findTargetTimeForSync now (ProcessedTasksUntil status)) resu])
          (case resu of None \<Rightarrow> [] | Some err \<Rightarrow> [Wrapped err ''error updating last synced date''])"
proof -
  obtain resg wa where g: "GetStatsStatus env p w0 = (resg, wa)"
    by (cases "GetStatsStatus env p w0")
  show ?thesis
  proof (cases resg)
    case (Inl err)
    with g show ?thesis by (intro status_error [where err = err and wa = wa]) (simp_all add: Run_def)
  next
    case (Inr status)
    obtain resr wb where f: "FindOneProjectRef env p wa = (resr, wb)"
      by (cases "FindOneProjectRef env p wa")
    show ?thesis
    proof (cases resr)
      case (Inl err)
      with g Inr f show ?thesis
        by (intro ref_error [where status = status and wa = wa and err = err and wb = wb]) (simp_all add: Run_def getTasksToIgnore_def Let_def)
    next
      case r2: (Inr refo)
      show ?thesis
      proof (cases refo)
        case None
        with g Inr f r2 show ?thesis
          by (intro ref_nil [where status = status and wa = wa and wb = wb]) (simp_all add: Run_def getTasksToIgnore_def Let_def)
      next
        case (Some ref)
        show ?thesis
        proof (cases "createRegexpFromStrings (Compile env) (FilesIgnoredFromCache ref)")
          case (Inl err)
          with g Inr f r2 Some show ?thesis
            by (intro compile_error [where status = status and wa = wa and wb = wb and ref = ref and err = err])
               (simp_all add: Run_def getTasksToIgnore_def Let_def)
        next
          case c: (Inr res)
          obtain jobTime wc where n1: "Now env wb = (jobTime, wc)" by (cases "Now env wb")
          obtain now wd where n2: "Now env wc = (now, wd)" by (cases "Now env wc")
          let ?from = "ProcessedTasksUntil status"
          let ?to = "findTargetTimeForSync now ?from"
          obtain resf we where fs: "FindStatsToUpdate env p ?from ?to wd = (resf, we)"
            by (cases "FindStatsToUpdate env p ?from ?to wd")
          show ?thesis
          proof (cases resf)
            case (Inl err)
            with g Inr f r2 Some c n1 n2 fs show ?thesis
              by (intro fetch_error [where status = status and wa = wa and wb = wb and ref = ref and res = res and jobTime = jobTime and wc = wc and now = now and wd = wd and err = err and we = we])
                 (simp_all add: Run_def getTasksToIgnore_def Let_def)
          next
            case r5: (Inr us)
            obtain eu wf evs where u: "updateHourlyAndDailyStats
                \<lparr>ctxProjectId = p, JobTime = jobTime, TasksToIgnore = res\<rparr>
                ord us (generateMap env ord) we = (eu, wf, evs)"
              by (cases "updateHourlyAndDailyStats
                \<lparr>ctxProjectId = p, JobTime = jobTime, TasksToIgnore = res\<rparr>
                ord us (generateMap env ord) we")
            show ?thesis
            proof (cases eu)
              case (Some err)
              with g Inr f r2 \<open>refo = Some ref\<close> c n1 n2 fs r5 u show ?thesis
                by (intro generate_error [where status = status and wa = wa and wb = wb and ref = ref and res = res and jobTime = jobTime and wc = wc and now = now and wd = wd and us = us and we = we and err = err and wf = wf and evs = evs])
                   (simp_all add: Run_def getTasksToIgnore_def Let_def)
            next
              case None
              obtain resu wg where up: "UpdateStatsStatus env p jobTime ?to wf = (resu, wg)"
                by (cases "UpdateStatsStatus env p jobTime ?to wf")
              with g Inr f r2 Some c n1 n2 fs r5 u None show ?thesis
                by (intro updated [where status = status and wa = wa and wb = wb and ref = ref and res = res and jobTime = jobTime and wc = wc and now = now and wd = wd and us = us and we = we and wf = wf and evs = evs and resu = resu and wg = wg])
                   (simp_all add: Run_def getTasksToIgnore_def Let_def split: option.splits)
            qed
          qed
        qed
      qed
    qed
  qed
qed

lemma not_ignored_filterIgnoredTasks:
  "t \<in> set (filterIgnoredTasks ts rs) \<Longrightarrow> \<not> anyRegexMatch t rs"
  by (simp add: filterIgnoredTasks_eq)

lemma hourlyPlan_tasks:
  "call \<in> set (hourlyPlan c stats names) \<Longrightarrow>
     call_tasks call \<noteq> [] \<and> (\<exists>stat \<in> set stats. \<exists>name \<in> set names.
        call = hourlyCall c name stat)"
  by (auto simp: hourlyPlan_def hourlyCalls_def hourlyCall_def)

lemma stages_split:
  assumes "list_all (inStage Hourly) hs" "list_all (\<lambda>e. fromBucket c r (fst e)) ds"
  shows "filter (inStage Hourly) (hs @ ds) = hs" "filter (inStage Daily) (hs @ ds) = ds"
proof -
  from assms(1) have h: "\<forall>e \<in> set hs. inStage Hourly e \<and> \<not> inStage Daily e"
    by (auto simp: list_all_iff inStage_def)
  from assms(2) have d: "\<forall>e \<in> set ds. inStage Daily e \<and> \<not> inStage Hourly e"
    by (auto simp: list_all_iff inStage_def fromBucket_def)
  from h d show "filter (inStage Hourly) (hs @ ds) = hs" "filter (inStage Daily) (hs @ ds) = ds"
    by (simp_all add: filter_id_conv filter_empty_conv)
qed

lemma Run_generate_events:
  fixes env :: "'w env"
  assumes "GenerateEv call res \<in> set (jobEvents (Run env ord p w0))"
  shows "\<exists>jobTime tasksToIgnore us w err w' evs.
            updateHourlyAndDailyStats
              \<lparr>ctxProjectId = p, JobTime = jobTime, TasksToIgnore = tasksToIgnore\<rparr>
              ord us (generateMap env ord) w = (err, w', evs)
            \<and> (call, res) \<in> set evs"
proof (cases rule: Run_cases [where env = env and p = p and ?w0.0 = w0 and ord = ord])
  case (generate_error status ref res' jobTime now us err evs wa wb wc wd we wf)
  from assms generate_error(8) have "(call, res) \<in> set evs"
    by (auto simp: returned_def generateEv_def)
  with generate_error(7) show ?thesis by blast
next
  case (updated status ref res' jobTime now us evs resu wa wb wc wd we wf wg)
  from assms updated(9) have "(call, res) \<in> set evs"
    by (auto simp: returned_def generateEv_def)
  with updated(7) show ?thesis by blast
qed (use assms in \<open>simp_all add: returned_def panicked_def\<close>)

lemma dispatch_tasks:
  assumes "updateHourlyAndDailyStats c ord stats fns w = (err, w', evs)" and "e \<in> set evs"
  shows "call_tasks (fst e) \<noteq> []"
    and "\<forall>t \<in> set (call_tasks (fst e)). \<not> anyRegexMatch t (TasksToIgnore c)"
    and "inStage Daily e \<longrightarrow> fromBucket c (buildDailyStatsRollup stats) (fst e)"
proof -
  from updateHourlyAndDailyStats_props [OF assms(1)] obtain hs ds where
    evs: "evs = hs @ ds" and hs: "list_all (inStage Hourly) hs"
    and ds: "list_all (\<lambda>e. fromBucket c (buildDailyStatsRollup stats) (fst e)) ds"
    and pre: "prefix (map fst hs) (hourlyPlan c stats (map fst (HourlyFns fns)))"
    by blast
  have "call_tasks (fst e) \<noteq> [] \<and>
        (\<forall>t \<in> set (call_tasks (fst e)). \<not> anyRegexMatch t (TasksToIgnore c)) \<and>
        (inStage Daily e \<longrightarrow> fromBucket c (buildDailyStatsRollup stats) (fst e))"
  proof (cases "e \<in> set hs")
    case True
    then have "fst e \<in> set (map fst hs)" by simp
    with pre have "fst e \<in> set (hourlyPlan c stats (map fst (HourlyFns fns)))"
      using set_mono_prefix by blast
    from hourlyPlan_tasks [OF this] obtain stat name where
      ne: "call_tasks (fst e) \<noteq> []" and eq: "fst e = hourlyCall c name stat"
      by blast
    from hs True have "\<not> inStage Daily e"
      by (auto simp: list_all_iff inStage_def)
    with ne eq show ?thesis
      by (simp add: hourlyCall_def filterIgnoredTasks_eq)
  next
    case False
    with assms(2) evs have "e \<in> set ds" by simp
    with ds have fb: "fromBucket c (buildDailyStatsRollup stats) (fst e)"
      by (simp add: list_all_iff)
    then obtain ts where "filterIgnoredTasks ts (TasksToIgnore c) = call_tasks (fst e)"
      by (auto simp: fromBucket_def)
    then have "\<forall>t \<in> set (call_tasks (fst e)). \<not> anyRegexMatch t (TasksToIgnore c)"
      using not_ignored_filterIgnoredTasks by metis
    with fb show ?thesis
      by (simp add: fromBucket_def)
  qed
  then show "call_tasks (fst e) \<noteq> []"
    and "\<forall>t \<in> set (call_tasks (fst e)). \<not> anyRegexMatch t (TasksToIgnore c)"
    and "inStage Daily e \<longrightarrow> fromBucket c (buildDailyStatsRollup stats) (fst e)"
    by simp_all
qed

lemma hourlyCalls_Filter_spec:
  "hourlyCalls c name stats =
     map (\<lambda>stat. \<lparr>call_stage = Hourly, call_displayName = name,
                   call_projectId = ProjectId stat, call_requester = Requester stat,
                   call_timePeriod = Hour stat, call_tasks = Tasks stat,
                   call_jobDate = JobTime c\<rparr>)
       (Filter_spec (TasksToIgnore c) stats)"
  by (induction stats) (simp_all add: hourlyCalls_def Filter_spec_def filterUnit_def hourlyCall_def)

subsection \<open>What the calls of a run say\<close>

lemma concat_map_Nil: "concat (map (\<lambda>x. []) xs) = []"
  by (induction xs) simp_all

lemma readings_generateEv [simp]:
  "clockReadings (map generateEv evs) = []"
  "checkpointsRead (map generateEv evs) = []"
  "windowsFetched (map generateEv evs) = []"
  "checkpointUpdates (map generateEv evs) = []"
  by (simp_all add: clockReadings_def checkpointsRead_def windowsFetched_def
      checkpointUpdates_def generateEv_def o_def concat_map_Nil)

lemma readings_append [simp]:
  "clockReadings (xs @ ys) = clockReadings xs @ clockReadings ys"
  "checkpointsRead (xs @ ys) = checkpointsRead xs @ checkpointsRead ys"
  "windowsFetched (xs @ ys) = windowsFetched xs @ windowsFetched ys"
  "checkpointUpdates (xs @ ys) = checkpointUpdates xs @ checkpointUpdates ys"
  by (simp_all add: clockReadings_def checkpointsRead_def windowsFetched_def
      checkpointUpdates_def)

lemma readings_Cons [simp]:
  "clockReadings (e # xs) = clockReading e @ clockReadings xs"
  "checkpointsRead (e # xs) = checkpointRead e @ checkpointsRead xs"
  "windowsFetched (e # xs) = windowFetched e @ windowsFetched xs"
  "checkpointUpdates (e # xs) = checkpointUpdate e @ checkpointUpdates xs"
  "clockReadings [] = []" "checkpointsRead [] = []" "windowsFetched [] = []"
  "checkpointUpdates [] = []"
  by (simp_all add: clockReadings_def checkpointsRead_def windowsFetched_def
      checkpointUpdates_def)

lemma list_ex_generateEv [simp]:
  "list_ex (compiledOk compile) (map generateEv evs) = False"
  "list_ex fetchedOk (map generateEv evs) = False"
  "list_ex generateFailed (map generateEv evs) = (\<not> list_all succeeded evs)"
  by (induction evs)
     (auto simp: generateEv_def succeeded_def list_ex_iff list_all_iff
           elim: generateFailed.elims)

lemma dispatch_succeeded_iff:
  assumes "updateHourlyAndDailyStats c ord stats fns w = (err, w', evs)"
  shows "list_all succeeded evs \<longleftrightarrow> err = None"
proof -
  from updateHourlyAndDailyStats_props [OF assms] have ok: "stageOk evs err" by blast
  show ?thesis
  proof
    assume "err = None" with ok show "list_all succeeded evs" by (simp add: stageOk_all)
  next
    assume a: "list_all succeeded evs"
    show "err = None"
    proof (cases "evs = []")
      case True with ok show ?thesis by (simp add: stageOk_def dispatchError_def)
    next
      case False
      with a have "succeeded (last evs)" by (simp add: list_all_iff)
      with ok False show ?thesis by (simp add: stageOk_def dispatchError_def)
    qed
  qed
qed

lemma Run_summary:
  fixes env :: "'w env" and ord p w0
  defines "evs \<equiv> jobEvents (Run env ord p w0)"
  shows "(fullySuccessful (Compile env) evs \<and>
          (\<exists>last jobTime now.
             checkpointsRead evs = [last] \<and> clockReadings evs = [jobTime, now] \<and>
             windowsFetched evs = [(p, last, findTargetTimeForSync now last)] \<and>
             checkpointUpdates evs = [(p, jobTime, findTargetTimeForSync now last)] \<and>
             checkpointUpdates (butlast evs) = []))
       \<or> (\<not> fullySuccessful (Compile env) evs \<and> checkpointUpdates evs = [] \<and>
          (windowsFetched evs = [] \<or>
           (\<exists>last jobTime now.
             checkpointsRead evs = [last] \<and> clockReadings evs = [jobTime, now] \<and>
             windowsFetched evs = [(p, last, findTargetTimeForSync now last)])))"
proof (cases rule: Run_cases [where env = env and p = p and ?w0.0 = w0 and ord = ord])
  case (status_error err wa)
  then show ?thesis by (simp add: evs_def returned_def fullySuccessful_def)
next
  case (ref_error status err wa wb)
  then show ?thesis by (simp add: evs_def returned_def fullySuccessful_def)
next
  case (ref_nil status wa wb)
  then show ?thesis by (simp add: evs_def panicked_def fullySuccessful_def)
next
  case (compile_error status ref err wa wb)
  then show ?thesis by (simp add: evs_def returned_def fullySuccessful_def)
next
  case (fetch_error status ref res jobTime now err wa wb wc wd we)
  then show ?thesis by (simp add: evs_def returned_def fullySuccessful_def)
next
  case (generate_error status ref res jobTime now us err evs' wa wb wc wd we wf)
  from dispatch_succeeded_iff [OF generate_error(7)] have "\<not> list_all succeeded evs'" by simp
  with generate_error show ?thesis by (simp add: evs_def returned_def fullySuccessful_def)
next
  case (updated status ref res jobTime now us evs' resu wa wb wc wd we wf wg)
  from dispatch_succeeded_iff [OF updated(7)] have "list_all succeeded evs'" by simp
  with updated show ?thesis
    by (simp add: evs_def returned_def fullySuccessful_def butlast_append)
qed

subsection \<open>Trimming and compiling the patterns\<close>





subsection \<open>The examples, evaluated\<close>

lemmas example_defs =
  updateHourlyAndDailyStats_def iteratorOverDailyStats_def buildDailyStatsRollup_def
  rollupStep_def filterIgnoredTasks_def Wrap_def Let_def
  exampleContext_def exampleOrder_def exampleUnits_def succeedingFn_def failingFn_def
  startsWith_def
  inStage_def succeeded_def dispatchError_def wrapped_def hourlyPlan_def hourlyCalls_def
  hourlyCall_def

lemma example_dispatch_failing:
  "updateHourlyAndDailyStats exampleContext exampleOrder exampleUnits
     \<lparr>HourlyFns = [(''h1'', succeedingFn), (''h2'', failingFn), (''h3'', succeedingFn)],
      DailyFns = [(''d1'', succeedingFn)]\<rparr> () =
   (Some (Wrapped (Err ''boom'') ''Could not sync hourly stats''), (),
    [(\<lparr>call_stage = Hourly, call_displayName = ''h1'', call_projectId = ''p'',
       call_requester = ''patch'', call_timePeriod = 10,
       call_tasks = [''keep_y''], call_jobDate = 99\<rparr>, None),
     (\<lparr>call_stage = Hourly, call_displayName = ''h1'', call_projectId = ''p'',
       call_requester = ''patch'', call_timePeriod = 12,
       call_tasks = [''keep_y''], call_jobDate = 99\<rparr>, None),
     (\<lparr>call_stage = Hourly, call_displayName = ''h2'', call_projectId = ''p'',
       call_requester = ''patch'', call_timePeriod = 10,
       call_tasks = [''keep_y''], call_jobDate = 99\<rparr>, Some (Err ''boom''))])"
  by (simp add: example_defs)

lemma example_dispatch_succeeding:
  "updateHourlyAndDailyStats exampleContext exampleOrder exampleUnits
     \<lparr>HourlyFns = [(''h1'', succeedingFn)], DailyFns = [(''d1'', succeedingFn)]\<rparr> () =
   (None, (),
    [(\<lparr>call_stage = Hourly, call_displayName = ''h1'', call_projectId = ''p'',
       call_requester = ''patch'', call_timePeriod = 10,
       call_tasks = [''keep_y''], call_jobDate = 99\<rparr>, None),
     (\<lparr>call_stage = Hourly, call_displayName = ''h1'', call_projectId = ''p'',
       call_requester = ''patch'', call_timePeriod = 12,
       call_tasks = [''keep_y''], call_jobDate = 99\<rparr>, None),
     (\<lparr>call_stage = Daily, call_displayName = ''d1'', call_projectId = ''p'',
       call_requester = ''patch'', call_timePeriod = 0,
       call_tasks = [''keep_y'', ''keep_y''], call_jobDate = 99\<rparr>, None)])"
  by (simp add: example_defs)

lemmas run_defs =
  Run_def getTasksToIgnore_def createRegexpFromStrings_def Trim_def exampleCompile_def
  exampleEnv_def exampleFn_def generateMap_def returned_def panicked_def generateEv_def
  findTargetTimeForSync_def maxSyncDuration_def time_Hour_def
  updateHourlyAndDailyStats_def iteratorOverDailyStats_def buildDailyStatsRollup_def
  rollupStep_def filterIgnoredTasks_def Wrap_def Let_def
  exampleOrder_def exampleUnits_def startsWith_def

lemmas reading_defs =
  checkpointsRead_def checkpointUpdates_def windowsFetched_def clockReadings_def
  fullySuccessful_def

lemma example_run_succeeds:
  "jobEvents (Run exampleEnv exampleOrder ''p''
       \<lparr>clock = 200, checkpoint = 0, ignorePatterns = [''^gen_''],
        fetchFails = False, generatorsFail = False\<rparr>) =
     [GetStatsStatusEv ''p'' (Inr \<lparr>ProcessedTasksUntil = 0\<rparr>),
      FindOneProjectRefEv ''p''
        (Inr (Some \<lparr>Identifier = ''p'', refBranch = ''main'',
                     FilesIgnoredFromCache = [''^gen_'']\<rparr>)),
      NowEv 200, NowEv 200,
      FindStatsToUpdateEv ''p'' 0 200 (Inr exampleUnits),
      GenerateEv \<lparr>call_stage = Hourly, call_displayName = ''test'', call_projectId = ''p'',
          call_requester = ''patch'', call_timePeriod = 10, call_tasks = [''keep_y''],
          call_jobDate = 200\<rparr> None,
      GenerateEv \<lparr>call_stage = Hourly, call_displayName = ''test'', call_projectId = ''p'',
          call_requester = ''patch'', call_timePeriod = 12, call_tasks = [''keep_y''],
          call_jobDate = 200\<rparr> None,
      GenerateEv \<lparr>call_stage = Daily, call_displayName = ''test'', call_projectId = ''p'',
          call_requester = ''patch'', call_timePeriod = 0,
          call_tasks = [''keep_y'', ''keep_y''], call_jobDate = 200\<rparr> None,
      GenerateEv \<lparr>call_stage = Daily, call_displayName = ''task'', call_projectId = ''p'',
          call_requester = ''patch'', call_timePeriod = 0,
          call_tasks = [''keep_y'', ''keep_y''], call_jobDate = 200\<rparr> None,
      UpdateStatsStatusEv ''p'' 200 200 None]"
  by (simp add: run_defs)

lemma example_run_generator_fails:
  "Run exampleEnv exampleOrder ''p''
       \<lparr>clock = 200, checkpoint = 0, ignorePatterns = [''^gen_''],
        fetchFails = False, generatorsFail = True\<rparr> =
   \<lparr>jobWorld = \<lparr>clock = 200, checkpoint = 0, ignorePatterns = [''^gen_''],
                 fetchFails = False, generatorsFail = True\<rparr>,
    jobEvents =
     [GetStatsStatusEv ''p'' (Inr \<lparr>ProcessedTasksUntil = 0\<rparr>),
      FindOneProjectRefEv ''p''
        (Inr (Some \<lparr>Identifier = ''p'', refBranch = ''main'',
                     FilesIgnoredFromCache = [''^gen_'']\<rparr>)),
      NowEv 200, NowEv 200,
      FindStatsToUpdateEv ''p'' 0 200 (Inr exampleUnits),
      GenerateEv \<lparr>call_stage = Hourly, call_displayName = ''test'', call_projectId = ''p'',
          call_requester = ''patch'', call_timePeriod = 10, call_tasks = [''keep_y''],
          call_jobDate = 200\<rparr> (Some (Err ''boom''))],
    jobErrors = [Wrapped (Wrapped (Err ''boom'') ''Could not sync hourly stats'')
                   ''error generating hourly test stats''],
    jobComplete = True, jobPanicked = False\<rparr>"
  by (simp add: run_defs)

lemma example_run_fetch_fails:
  "Run exampleEnv exampleOrder ''p''
       \<lparr>clock = t, checkpoint = 0, ignorePatterns = [''^gen_''],
        fetchFails = True, generatorsFail = False\<rparr> =
   \<lparr>jobWorld = \<lparr>clock = t, checkpoint = 0, ignorePatterns = [''^gen_''],
                 fetchFails = True, generatorsFail = False\<rparr>,
    jobEvents =
     [GetStatsStatusEv ''p'' (Inr \<lparr>ProcessedTasksUntil = 0\<rparr>),
      FindOneProjectRefEv ''p''
        (Inr (Some \<lparr>Identifier = ''p'', refBranch = ''main'',
                     FilesIgnoredFromCache = [''^gen_'']\<rparr>)),
      NowEv t, NowEv t,
      FindStatsToUpdateEv ''p'' 0 (findTargetTimeForSync t 0) (Inl (Err ''no connection''))],
    jobErrors = [Wrapped (Err ''no connection'') ''error finding tasks to update''],
    jobComplete = True, jobPanicked = False\<rparr>"
  by (simp add: Run_def getTasksToIgnore_def createRegexpFromStrings_def Trim_def
      exampleCompile_def exampleEnv_def returned_def Let_def)

lemma example_compile_ok:
  "createRegexpFromStrings exampleCompile [''^gen_''] = Inr [startsWith ''gen_'']"
  by (simp add: createRegexpFromStrings_def Trim_def exampleCompile_def)

lemma example_Compile: "Compile exampleEnv = exampleCompile"
  by (simp add: exampleEnv_def)

lemma example_target: "findTargetTimeForSync 100 0 = 100" "findTargetTimeForSync 200 0 = 200"
  by (simp_all add: findTargetTimeForSync_def maxSyncDuration_def time_Hour_def)

lemma exampleOrder_enumerates:
  "enumerates (dayOrder exampleOrder name) (buildDailyStatsRollup exampleUnits)"
  "enumerates (requesterOrder exampleOrder name 0)
     (case buildDailyStatsRollup exampleUnits 0 of Some forDay \<Rightarrow> forDay)"
  by (auto simp: enumerates_def exampleOrder_def buildDailyStatsRollup_def exampleUnits_def
      rollupStep_def dom_def split: if_splits)

section \<open>Properties of the manifest endpoint\<close>

lemma api_readings [simp]:
  "lookups [] = []" "branchQueries [] = []" "inserts [] = []"
  "lookups (e # evs) = lookup e @ lookups evs"
  "branchQueries (e # evs) = branchQuery e @ branchQueries evs"
  "inserts (e # evs) = insert_attempt e @ inserts evs"
  "lookups (evs @ evs') = lookups evs @ lookups evs'"
  "branchQueries (evs @ evs') = branchQueries evs @ branchQueries evs'"
  "inserts (evs @ evs') = inserts evs @ inserts evs'"
  by (simp_all add: lookups_def branchQueries_def inserts_def)










section \<open>The claims\<close>

subsection \<open>C1: the checkpoint is the commit point\<close>

text \<open>
  Claim C1, as amended. A run calls the checkpoint update exactly when the pass is fully
  successful: the patterns compiled, the units were fetched and every hourly and every daily
  generator call succeeded. It then calls it once, as its last call, with the upper bound of
  the window it fetched. A run that is not fully successful makes no checkpoint update.
  Two runs that read the same checkpoint fetch windows that start at that checkpoint; the
  upper bound of each is the minimum of its own clock reading and the checkpoint plus one
  week.
\<close>

theorem C1_checkpoint_commit:
  fixes env :: "'w env" and env' :: "'v env"
  shows "(fullySuccessful (Compile env) (jobEvents (Run env ord p w0)) \<longrightarrow>
        (\<exists>last jobTime now.
           windowsFetched (jobEvents (Run env ord p w0)) =
             [(p, last, findTargetTimeForSync now last)] \<and>
           checkpointUpdates (jobEvents (Run env ord p w0)) =
             [(p, jobTime, findTargetTimeForSync now last)] \<and>
           checkpointUpdates (butlast (jobEvents (Run env ord p w0))) = []))
   \<and> (\<not> fullySuccessful (Compile env) (jobEvents (Run env ord p w0)) \<longrightarrow>
        checkpointUpdates (jobEvents (Run env ord p w0)) = [])
   \<and> (\<forall>last from to from' to' jobTime now jobTime' now'.
        checkpointsRead (jobEvents (Run env ord p w0)) = [last] \<and>
        checkpointsRead (jobEvents (Run env' ord' p w0')) = [last] \<and>
        clockReadings (jobEvents (Run env ord p w0)) = [jobTime, now] \<and>
        clockReadings (jobEvents (Run env' ord' p w0')) = [jobTime', now'] \<and>
        windowsFetched (jobEvents (Run env ord p w0)) = [(p, from, to)] \<and>
        windowsFetched (jobEvents (Run env' ord' p w0')) = [(p, from', to')] \<longrightarrow>
        from = last \<and> from' = last \<and>
        to = min now (last + maxSyncDuration) \<and> to' = min now' (last + maxSyncDuration) \<and>
        (now \<le> now' \<longrightarrow> to \<le> to') \<and>
        (last + maxSyncDuration \<le> now \<and> now \<le> now' \<longrightarrow> to' = to))"
proof -
  define evs where "evs = jobEvents (Run env ord p w0)"
  define evs' where "evs' = jobEvents (Run env' ord' p w0')"
  note s = Run_summary [where env = env and ord = ord and p = p and ?w0.0 = w0,
      folded evs_def]
  note s' = Run_summary [where env = env' and ord = ord' and p = p and ?w0.0 = w0',
      folded evs'_def]
  have t: "findTargetTimeForSync now last = min now (last + maxSyncDuration)" for now last
    by (simp add: findTargetTimeForSync_def Let_def min_def)
  from s have 1: "fullySuccessful (Compile env) evs \<longrightarrow>
        (\<exists>last jobTime now.
           windowsFetched evs = [(p, last, findTargetTimeForSync now last)] \<and>
           checkpointUpdates evs = [(p, jobTime, findTargetTimeForSync now last)] \<and>
           checkpointUpdates (butlast evs) = [])"
  proof (cases "fullySuccessful (Compile env) evs")
    case True
    with s show ?thesis by fast
  next
    case False
    then show ?thesis by simp
  qed
  from s have 2: "\<not> fullySuccessful (Compile env) evs \<longrightarrow> checkpointUpdates evs = []"
    by (elim disjE conjE exE) simp_all
  have w: "from = last \<and> to = min now (last + maxSyncDuration)"
    if "checkpointsRead evs = [last]" "clockReadings evs = [jobTime, now]"
       "windowsFetched evs = [(p, from, to)]" for last jobTime now "from" to
    using s that by (elim disjE conjE exE) (auto simp: t)
  have w': "from = last \<and> to = min now (last + maxSyncDuration)"
    if "checkpointsRead evs' = [last]" "clockReadings evs' = [jobTime, now]"
       "windowsFetched evs' = [(p, from, to)]" for last jobTime now "from" to
    using s' that by (elim disjE conjE exE) (auto simp: t)
  have 3: "from = last \<and> from' = last \<and>
        to = min now (last + maxSyncDuration) \<and> to' = min now' (last + maxSyncDuration) \<and>
        (now \<le> now' \<longrightarrow> to \<le> to') \<and>
        (last + maxSyncDuration \<le> now \<and> now \<le> now' \<longrightarrow> to' = to)"
    if "checkpointsRead evs = [last]" "checkpointsRead evs' = [last]"
       "clockReadings evs = [jobTime, now]" "clockReadings evs' = [jobTime', now']"
       "windowsFetched evs = [(p, from, to)]" "windowsFetched evs' = [(p, from', to')]"
    for last "from" to from' to' jobTime now jobTime' now'
    using w [OF that(1,3,5)] w' [OF that(2,4,6)] by auto
  from 1 2 3 show ?thesis
    unfolding evs_def evs'_def by blast
qed

text \<open>
  A fully successful run at time 200 updates the checkpoint to 200; a run whose generators
  fail is not fully successful and makes no update; two runs that read the checkpoint 0 and
  cannot fetch, at times 100 and 200, fetch from 0 to 100 and from 0 to 200.
\<close>

theorem C1_checkpoint_commit_witness:
  "fullySuccessful exampleCompile (jobEvents (Run exampleEnv exampleOrder ''p''
       \<lparr>clock = 200, checkpoint = 0, ignorePatterns = [''^gen_''],
        fetchFails = False, generatorsFail = False\<rparr>))
   \<and> checkpointUpdates (jobEvents (Run exampleEnv exampleOrder ''p''
       \<lparr>clock = 200, checkpoint = 0, ignorePatterns = [''^gen_''],
        fetchFails = False, generatorsFail = False\<rparr>)) = [(''p'', 200, 200)]
   \<and> \<not> fullySuccessful exampleCompile (jobEvents (Run exampleEnv exampleOrder ''p''
       \<lparr>clock = 200, checkpoint = 0, ignorePatterns = [''^gen_''],
        fetchFails = False, generatorsFail = True\<rparr>))
   \<and> checkpointUpdates (jobEvents (Run exampleEnv exampleOrder ''p''
       \<lparr>clock = 200, checkpoint = 0, ignorePatterns = [''^gen_''],
        fetchFails = False, generatorsFail = True\<rparr>)) = []
   \<and> windowsFetched (jobEvents (Run exampleEnv exampleOrder ''p''
       \<lparr>clock = 100, checkpoint = 0, ignorePatterns = [''^gen_''],
        fetchFails = True, generatorsFail = False\<rparr>)) = [(''p'', 0, 100)]
   \<and> windowsFetched (jobEvents (Run exampleEnv exampleOrder ''p''
       \<lparr>clock = 200, checkpoint = 0, ignorePatterns = [''^gen_''],
        fetchFails = True, generatorsFail = False\<rparr>)) = [(''p'', 0, 200)]
   \<and> (100 :: int) = min 100 (0 + maxSyncDuration)
   \<and> (200 :: int) = min 200 (0 + maxSyncDuration)"
proof -
  let ?ok = "\<lparr>clock = 200, checkpoint = 0, ignorePatterns = [''^gen_''],
              fetchFails = False, generatorsFail = False\<rparr>"
  let ?bad = "\<lparr>clock = 200, checkpoint = 0, ignorePatterns = [''^gen_''],
               fetchFails = False, generatorsFail = True\<rparr>"
  let ?first = "\<lparr>clock = 100, checkpoint = 0, ignorePatterns = [''^gen_''],
                 fetchFails = True, generatorsFail = False\<rparr>"
  let ?second = "\<lparr>clock = 200, checkpoint = 0, ignorePatterns = [''^gen_''],
                  fetchFails = True, generatorsFail = False\<rparr>"
  have f1: "fullySuccessful exampleCompile (jobEvents (Run exampleEnv exampleOrder ''p'' ?ok))"
    unfolding example_run_succeeds by (simp add: fullySuccessful_def example_compile_ok)
  have f2: "checkpointUpdates (jobEvents (Run exampleEnv exampleOrder ''p'' ?ok))
              = [(''p'', 200, 200)]"
    unfolding example_run_succeeds by (simp add: checkpointUpdates_def)
  have f3: "\<not> fullySuccessful exampleCompile
              (jobEvents (Run exampleEnv exampleOrder ''p'' ?bad))"
    unfolding example_run_generator_fails
    by (simp add: fullySuccessful_def example_compile_ok)
  have f4: "checkpointUpdates (jobEvents (Run exampleEnv exampleOrder ''p'' ?bad)) = []"
    using C1_checkpoint_commit [where env = exampleEnv and ord = exampleOrder
        and p = "''p''" and ?w0.0 = ?bad, THEN conjunct2, THEN conjunct1] f3
    unfolding example_Compile by (rule mp)
  have r: "checkpointsRead (jobEvents (Run exampleEnv exampleOrder ''p'' ?first)) = [0]"
      "checkpointsRead (jobEvents (Run exampleEnv exampleOrder ''p'' ?second)) = [0]"
      "clockReadings (jobEvents (Run exampleEnv exampleOrder ''p'' ?first)) = [100, 100]"
      "clockReadings (jobEvents (Run exampleEnv exampleOrder ''p'' ?second)) = [200, 200]"
    unfolding example_run_fetch_fails
    by (simp_all add: checkpointsRead_def clockReadings_def)
  have f5: "windowsFetched (jobEvents (Run exampleEnv exampleOrder ''p'' ?first))
              = [(''p'', 0, 100)]"
    and f6: "windowsFetched (jobEvents (Run exampleEnv exampleOrder ''p'' ?second))
              = [(''p'', 0, 200)]"
    unfolding example_run_fetch_fails
    by (simp_all add: windowsFetched_def example_target)
  from r f5 f6 have f7: "(100 :: int) = min 100 (0 + maxSyncDuration)
      \<and> (200 :: int) = min 200 (0 + maxSyncDuration)"
    using C1_checkpoint_commit [where env = exampleEnv and ord = exampleOrder
        and p = "''p''" and ?w0.0 = ?first and env' = exampleEnv and ord' = exampleOrder
        and ?w0'.0 = ?second, THEN conjunct2, THEN conjunct2, rule_format,
        where ?last = 0 and ?from = 0 and ?to = 100 and ?from' = 0 and ?to' = 200
        and ?jobTime = 100 and ?now = 100 and ?jobTime' = 200 and ?now' = 200]
    by blast
  from f1 f2 f3 f4 f5 f6 f7 show ?thesis
    by (intro conjI) blast+
qed

text \<open>
  Claim C1 as stated fails in its last part: a run at time 100 fetches the window from 0 to
  100, fails and leaves the world as it was; the next run, at time 200, fetches the window
  from 0 to 200, which is not the same window.
\<close>

theorem C1_next_window_differs:
  "windowsFetched (jobEvents (Run exampleEnv exampleOrder ''p''
       \<lparr>clock = 100, checkpoint = 0, ignorePatterns = [''^gen_''],
        fetchFails = True, generatorsFail = False\<rparr>)) = [(''p'', 0, 100)]
   \<and> checkpointUpdates (jobEvents (Run exampleEnv exampleOrder ''p''
       \<lparr>clock = 100, checkpoint = 0, ignorePatterns = [''^gen_''],
        fetchFails = True, generatorsFail = False\<rparr>)) = []
   \<and> jobWorld (Run exampleEnv exampleOrder ''p''
       \<lparr>clock = 100, checkpoint = 0, ignorePatterns = [''^gen_''],
        fetchFails = True, generatorsFail = False\<rparr>) =
     \<lparr>clock = 100, checkpoint = 0, ignorePatterns = [''^gen_''],
      fetchFails = True, generatorsFail = False\<rparr>
   \<and> windowsFetched (jobEvents (Run exampleEnv exampleOrder ''p''
       \<lparr>clock = 200, checkpoint = 0, ignorePatterns = [''^gen_''],
        fetchFails = True, generatorsFail = False\<rparr>)) = [(''p'', 0, 200)]"
  unfolding example_run_fetch_fails
  by (simp add: windowsFetched_def checkpointUpdates_def example_target)

subsection \<open>C2: hourly before daily, fail-fast\<close>

text \<open>
  Claim C2. For every list of units and every pair of tables, the calls of a dispatch are
  the hourly calls followed by the daily calls. The hourly calls are an initial part of the
  planned hourly calls (for each hourly generator in turn, one call for each unit whose
  filtered task list is not empty); if there is a daily call at all, the hourly calls are
  all the planned ones and all of them succeeded. Every call but the last succeeded, so a
  call that returns an error is the last call made: no further unit or generator of its
  stage and no generator of the next stage is called. The error returned is the wrapped
  error of that last call.
\<close>

theorem C2_hourly_before_daily_fail_fast:
  assumes "updateHourlyAndDailyStats c ord statsToUpdate generateFns w = (err, w', evs)"
  shows "evs = filter (inStage Hourly) evs @ filter (inStage Daily) evs
    \<and> prefix (map fst (filter (inStage Hourly) evs))
         (hourlyPlan c statsToUpdate (map fst (HourlyFns generateFns)))
    \<and> (filter (inStage Daily) evs \<noteq> [] \<longrightarrow>
         map fst (filter (inStage Hourly) evs) =
           hourlyPlan c statsToUpdate (map fst (HourlyFns generateFns))
         \<and> list_all succeeded (filter (inStage Hourly) evs))
    \<and> list_all succeeded (butlast evs)
    \<and> err = dispatchError evs"
proof -
  from updateHourlyAndDailyStats_props [OF assms] obtain hs ds where
    evs: "evs = hs @ ds" and hs: "list_all (inStage Hourly) hs"
    and ds: "list_all (\<lambda>e. fromBucket c (buildDailyStatsRollup statsToUpdate) (fst e)) ds"
    and pre: "prefix (map fst hs) (hourlyPlan c statsToUpdate (map fst (HourlyFns generateFns)))"
    and full: "ds \<noteq> [] \<or> err = None \<longrightarrow>
        map fst hs = hourlyPlan c statsToUpdate (map fst (HourlyFns generateFns))
        \<and> list_all succeeded hs"
    and ok: "stageOk evs err"
    by blast
  note split = stages_split [OF hs ds]
  from pre full ok show ?thesis
    unfolding evs split by (simp add: stageOk_def)
qed

text \<open>
  Three hourly generators of which the second fails: after the two calls of the first and
  the failing call of the second, nothing is called. With one succeeding hourly generator,
  its calls are the planned ones and come before the daily call.
\<close>

theorem C2_hourly_before_daily_fail_fast_witness:
  "fst (updateHourlyAndDailyStats exampleContext exampleOrder exampleUnits
     \<lparr>HourlyFns = [(''h1'', succeedingFn), (''h2'', failingFn), (''h3'', succeedingFn)],
      DailyFns = [(''d1'', succeedingFn)]\<rparr> ())
     = Some (Wrapped (Err ''boom'') ''Could not sync hourly stats'')
   \<and> map (call_displayName \<circ> fst) (snd (snd
       (updateHourlyAndDailyStats exampleContext exampleOrder exampleUnits
         \<lparr>HourlyFns = [(''h1'', succeedingFn), (''h2'', failingFn), (''h3'', succeedingFn)],
          DailyFns = [(''d1'', succeedingFn)]\<rparr> ())))
     = [''h1'', ''h1'', ''h2'']
   \<and> map (call_displayName \<circ> fst) (snd (snd
       (updateHourlyAndDailyStats exampleContext exampleOrder exampleUnits
         \<lparr>HourlyFns = [(''h1'', succeedingFn)], DailyFns = [(''d1'', succeedingFn)]\<rparr> ())))
     = [''h1'', ''h1'', ''d1'']
   \<and> map fst (filter (inStage Hourly) (snd (snd
       (updateHourlyAndDailyStats exampleContext exampleOrder exampleUnits
         \<lparr>HourlyFns = [(''h1'', succeedingFn)], DailyFns = [(''d1'', succeedingFn)]\<rparr> ()))))
     = hourlyPlan exampleContext exampleUnits [''h1'']"
  using C2_hourly_before_daily_fail_fast [OF example_dispatch_failing]
    C2_hourly_before_daily_fail_fast [OF example_dispatch_succeeding]
  by (simp add: example_dispatch_failing example_dispatch_succeeding inStage_def)

subsection \<open>C3: where the checkpoint moves\<close>

text \<open>
  Claim C3, as amended. A run that updates the checkpoint updates it once, to the target
  computed from the checkpoint it read and its second clock reading: the minimum of that
  reading and the checkpoint plus one week. The new checkpoint is not before the old one
  when the clock reading is not before the old one; when the clock reading is before the
  old checkpoint, the new checkpoint is the clock reading.
\<close>

theorem C3_checkpoint_moves_to_target:
  fixes env :: "'w env"
  shows "checkpointUpdates (jobEvents (Run env ord p w0)) = []
   \<or> (\<exists>last jobTime now.
        checkpointsRead (jobEvents (Run env ord p w0)) = [last] \<and>
        clockReadings (jobEvents (Run env ord p w0)) = [jobTime, now] \<and>
        checkpointUpdates (jobEvents (Run env ord p w0)) =
          [(p, jobTime, findTargetTimeForSync now last)] \<and>
        findTargetTimeForSync now last = min now (last + maxSyncDuration) \<and>
        (last \<le> now \<longrightarrow> last \<le> findTargetTimeForSync now last) \<and>
        (now < last \<longrightarrow> findTargetTimeForSync now last = now))"
proof -
  have t: "findTargetTimeForSync now last = min now (last + maxSyncDuration) \<and>
        (last \<le> now \<longrightarrow> last \<le> findTargetTimeForSync now last) \<and>
        (now < last \<longrightarrow> findTargetTimeForSync now last = now)" for now last
    by (simp add: findTargetTimeForSync_def maxSyncDuration_def time_Hour_def Let_def min_def)
  from Run_summary [where env = env and ord = ord and p = p and ?w0.0 = w0] t
  show ?thesis
    by blast
qed

text \<open>A run at time 200 that read the checkpoint 0 moves it to 200.\<close>

theorem C3_checkpoint_moves_to_target_witness:
  "checkpointsRead (jobEvents (Run exampleEnv exampleOrder ''p''
       \<lparr>clock = 200, checkpoint = 0, ignorePatterns = [''^gen_''],
        fetchFails = False, generatorsFail = False\<rparr>)) = [0]
   \<and> checkpointUpdates (jobEvents (Run exampleEnv exampleOrder ''p''
       \<lparr>clock = 200, checkpoint = 0, ignorePatterns = [''^gen_''],
        fetchFails = False, generatorsFail = False\<rparr>)) = [(''p'', 200, 200)]
   \<and> findTargetTimeForSync 200 0 = 200"
  using C3_checkpoint_moves_to_target [where env = exampleEnv and ord = exampleOrder
      and p = "''p''"
      and ?w0.0 = "\<lparr>clock = 200, checkpoint = 0, ignorePatterns = [''^gen_''],
                     fetchFails = False, generatorsFail = False\<rparr>"]
  by (simp add: run_defs checkpointsRead_def checkpointUpdates_def)

text \<open>
  Claim C3 as stated fails: a run at time 5 that read the checkpoint 10 completes without
  an error and moves the checkpoint back to 5.
\<close>

theorem C3_checkpoint_goes_back:
  "checkpointsRead (jobEvents (Run exampleEnv exampleOrder ''p''
       \<lparr>clock = 5, checkpoint = 10, ignorePatterns = [''^gen_''],
        fetchFails = False, generatorsFail = False\<rparr>)) = [10]
   \<and> checkpointUpdates (jobEvents (Run exampleEnv exampleOrder ''p''
       \<lparr>clock = 5, checkpoint = 10, ignorePatterns = [''^gen_''],
        fetchFails = False, generatorsFail = False\<rparr>)) = [(''p'', 5, 5)]
   \<and> jobErrors (Run exampleEnv exampleOrder ''p''
       \<lparr>clock = 5, checkpoint = 10, ignorePatterns = [''^gen_''],
        fetchFails = False, generatorsFail = False\<rparr>) = []
   \<and> checkpoint (jobWorld (Run exampleEnv exampleOrder ''p''
       \<lparr>clock = 5, checkpoint = 10, ignorePatterns = [''^gen_''],
        fetchFails = False, generatorsFail = False\<rparr>)) = 5
   \<and> findTargetTimeForSync 5 10 < 10"
  by (simp add: run_defs checkpointsRead_def checkpointUpdates_def)

subsection \<open>C4: filtering and the daily buckets\<close>

text \<open>
  Claim C4, as amended. The rollup is built from the units as fetched, and each bucket is
  filtered when the daily stage visits it. So no task name that an ignore pattern matches
  is in the task list of any generator call, and the task list of a daily call is the
  filtered bucket of its day and requester, which is also the bucket of the rollup of the
  units filtered as the specification describes.
\<close>

theorem C4_daily_calls_filtered:
  assumes "updateHourlyAndDailyStats c ord statsToUpdate generateFns w = (err, w', evs)"
  shows "\<forall>e \<in> set evs.
      (\<forall>t \<in> set (call_tasks (fst e)). \<not> anyRegexMatch t (TasksToIgnore c))
    \<and> (inStage Daily e \<longrightarrow>
         map_option (\<lambda>ts. filterIgnoredTasks ts (TasksToIgnore c))
           (bucket (buildDailyStatsRollup statsToUpdate)
              (call_timePeriod (fst e)) (call_requester (fst e)))
           = Some (call_tasks (fst e))
       \<and> call_tasks (fst e) =
           bucketTasks (buildDailyStatsRollup (Filter_spec (TasksToIgnore c) statsToUpdate))
             (call_timePeriod (fst e)) (call_requester (fst e)))"
proof
  fix e assume e: "e \<in> set evs"
  note t = dispatch_tasks [OF assms e]
  have "map_option (\<lambda>ts. filterIgnoredTasks ts (TasksToIgnore c))
           (bucket (buildDailyStatsRollup statsToUpdate) d r) = Some ts' \<Longrightarrow>
        ts' = bucketTasks (buildDailyStatsRollup (Filter_spec (TasksToIgnore c) statsToUpdate)) d r"
    for d r ts'
    by (auto simp add: bucketTasks_buildDailyStatsRollup concat_Tasks_Filter_spec
        bucket_buildDailyStatsRollup filterIgnoredTasks_concat o_def split: if_splits)
  with t show "(\<forall>t \<in> set (call_tasks (fst e)). \<not> anyRegexMatch t (TasksToIgnore c))
    \<and> (inStage Daily e \<longrightarrow>
         map_option (\<lambda>ts. filterIgnoredTasks ts (TasksToIgnore c))
           (bucket (buildDailyStatsRollup statsToUpdate)
              (call_timePeriod (fst e)) (call_requester (fst e)))
           = Some (call_tasks (fst e))
       \<and> call_tasks (fst e) =
           bucketTasks (buildDailyStatsRollup (Filter_spec (TasksToIgnore c) statsToUpdate))
             (call_timePeriod (fst e)) (call_requester (fst e)))"
    by (simp add: fromBucket_def)
qed

text \<open>The daily call for the example units, and the two buckets it can be read from.\<close>

theorem C4_daily_calls_filtered_witness:
  "map (call_tasks \<circ> fst)
     (filter (inStage Daily)
        (snd (snd (updateHourlyAndDailyStats exampleContext exampleOrder exampleUnits
           \<lparr>HourlyFns = [(''h1'', succeedingFn)], DailyFns = [(''d1'', succeedingFn)]\<rparr> ()))))
     = [[''keep_y'', ''keep_y'']]
   \<and> bucket (buildDailyStatsRollup exampleUnits) 0 ''patch''
       = Some [''gen_x'', ''keep_y'', ''gen_z'', ''keep_y'']
   \<and> bucketTasks (buildDailyStatsRollup
         (Filter_spec (TasksToIgnore exampleContext) exampleUnits)) 0 ''patch''
       = [''keep_y'', ''keep_y'']"
  using C4_daily_calls_filtered [OF example_dispatch_succeeding]
  by (simp add: example_dispatch_succeeding inStage_def)
     (simp add: bucket_buildDailyStatsRollup unitsOf_def exampleUnits_def)

text \<open>
  Claim C4 as stated fails: the rollup that the daily stage is given is built from the
  units as fetched, and its bucket holds gen\_x, which the ignore pattern matches; the
  rollup of the filtered units differs from it.
\<close>

theorem C4_buckets_hold_ignored_tasks:
  "bucket (buildDailyStatsRollup exampleUnits) 0 ''patch''
     = Some [''gen_x'', ''keep_y'', ''gen_z'', ''keep_y'']
   \<and> anyRegexMatch ''gen_x'' (TasksToIgnore exampleContext)
   \<and> bucket (buildDailyStatsRollup (Filter_spec (TasksToIgnore exampleContext) exampleUnits))
        0 ''patch'' = Some [''keep_y'', ''keep_y'']
   \<and> updateHourlyAndDailyStats exampleContext exampleOrder exampleUnits
        \<lparr>HourlyFns = [], DailyFns = [(''d1'', succeedingFn)]\<rparr> ()
      = overDailyFns exampleContext exampleOrder (buildDailyStatsRollup exampleUnits)
          [(''d1'', succeedingFn)] ()"
  by (simp add: bucket_buildDailyStatsRollup unitsOf_def exampleUnits_def exampleContext_def
      startsWith_def Filter_spec_def filterUnit_def filterIgnoredTasks_def
      updateHourlyAndDailyStats_def split: prod.splits)

subsection \<open>C5: the window\<close>

text \<open>
  Claim C5. The target of a sync is the minimum of the clock reading and the previous sync
  time plus \<open>maxSyncDuration\<close>, which is one week: it is the clock reading if the previous
  sync time plus one week is after it, and the previous sync time plus one week otherwise.
  With the previous sync at \<open>D0\<close>, a clock reading two days later gives that reading and a
  clock reading twenty days later gives \<open>D0\<close> plus seven days. A run that fetches units
  fetches one window: from the checkpoint it read to the target for its second clock
  reading.
\<close>

theorem C5_window_target:
  fixes env :: "'w env"
  shows "findTargetTimeForSync now lastProcessed = min now (lastProcessed + maxSyncDuration)
   \<and> maxSyncDuration = 7 * (24 * time_Hour)
   \<and> findTargetTimeForSync now lastProcessed =
       (if now < lastProcessed + 7 * (24 * time_Hour) then now
        else lastProcessed + 7 * (24 * time_Hour))
   \<and> findTargetTimeForSync (D0 + 2 * (24 * time_Hour)) D0 = D0 + 2 * (24 * time_Hour)
   \<and> findTargetTimeForSync (D0 + 20 * (24 * time_Hour)) D0 = D0 + 7 * (24 * time_Hour)
   \<and> (windowsFetched (jobEvents (Run env ord p w0)) = [] \<or>
       (\<exists>last jobTime reading.
          checkpointsRead (jobEvents (Run env ord p w0)) = [last] \<and>
          clockReadings (jobEvents (Run env ord p w0)) = [jobTime, reading] \<and>
          windowsFetched (jobEvents (Run env ord p w0)) =
            [(p, last, min reading (last + maxSyncDuration))]))"
proof -
  have t: "findTargetTimeForSync reading last = min reading (last + maxSyncDuration)"
    for reading last
    by (simp add: findTargetTimeForSync_def Let_def min_def)
  have w: "windowsFetched (jobEvents (Run env ord p w0)) = [] \<or>
       (\<exists>last jobTime reading.
          checkpointsRead (jobEvents (Run env ord p w0)) = [last] \<and>
          clockReadings (jobEvents (Run env ord p w0)) = [jobTime, reading] \<and>
          windowsFetched (jobEvents (Run env ord p w0)) =
            [(p, last, min reading (last + maxSyncDuration))])"
    using Run_summary [where env = env and ord = ord and p = p and ?w0.0 = w0]
    unfolding t by blast
  have "findTargetTimeForSync now lastProcessed = min now (lastProcessed + maxSyncDuration)
   \<and> maxSyncDuration = 7 * (24 * time_Hour)
   \<and> findTargetTimeForSync now lastProcessed =
       (if now < lastProcessed + 7 * (24 * time_Hour) then now
        else lastProcessed + 7 * (24 * time_Hour))
   \<and> findTargetTimeForSync (D0 + 2 * (24 * time_Hour)) D0 = D0 + 2 * (24 * time_Hour)
   \<and> findTargetTimeForSync (D0 + 20 * (24 * time_Hour)) D0 = D0 + 7 * (24 * time_Hour)"
    by (simp add: findTargetTimeForSync_def maxSyncDuration_def time_Hour_def Let_def min_def)
  with w show ?thesis by blast
qed

text \<open>
  Two days and twenty days after a sync at time 0, in nanoseconds; and the window of the
  example run at time 200 that read the checkpoint 0.
\<close>

theorem C5_window_target_witness:
  "findTargetTimeForSync 172800000000000 0 = 172800000000000
   \<and> findTargetTimeForSync 1728000000000000 0 = 604800000000000
   \<and> windowsFetched (jobEvents (Run exampleEnv exampleOrder ''p''
       \<lparr>clock = 200, checkpoint = 0, ignorePatterns = [''^gen_''],
        fetchFails = False, generatorsFail = False\<rparr>)) = [(''p'', 0, 200)]"
proof -
  let ?ok = "\<lparr>clock = 200, checkpoint = 0, ignorePatterns = [''^gen_''],
              fetchFails = False, generatorsFail = False\<rparr>"
  note a = C5_window_target [where now = 172800000000000 and lastProcessed = 0 and ?D0.0 = 0
      and env = exampleEnv and ord = exampleOrder and p = "''p''" and ?w0.0 = ?ok]
  note b = C5_window_target [where now = 1728000000000000 and lastProcessed = 0
      and ?D0.0 = 0 and env = exampleEnv and ord = exampleOrder and p = "''p''"
      and ?w0.0 = ?ok]
  have 1: "findTargetTimeForSync 172800000000000 0 = 172800000000000"
    using a [THEN conjunct1] by (simp add: maxSyncDuration_def time_Hour_def)
  have 2: "findTargetTimeForSync 1728000000000000 0 = 604800000000000"
    using b [THEN conjunct1] by (simp add: maxSyncDuration_def time_Hour_def)
  have 3: "windowsFetched (jobEvents (Run exampleEnv exampleOrder ''p'' ?ok))
             = [(''p'', 0, 200)]"
    unfolding example_run_succeeds by (simp add: windowsFetched_def)
  from 1 2 3 show ?thesis by (intro conjI) blast+
qed

subsection \<open>C6: the daily rollup\<close>

text \<open>
  Claim C6. The bucket of a day and a requester in the daily rollup is the concatenation, in
  input order and with duplicates kept, of the task lists of the units of that day and that
  requester; there is no bucket where there is no such unit. Two units of the same day and
  requester with tasks a and a, b fold to a, a, b.
\<close>

theorem C6_rollup_concatenates:
  "bucket (buildDailyStatsRollup hourlyStats) day requester =
     (if unitsOf day requester hourlyStats = [] then None
      else Some (concat (map Tasks (unitsOf day requester hourlyStats))))
   \<and> unitsOf day requester hourlyStats =
       filter (\<lambda>stat. Day stat = day \<and> Requester stat = requester) hourlyStats
   \<and> bucket (buildDailyStatsRollup
        [\<lparr>ProjectId = p1, Requester = requester, Hour = h1, Day = day, Tasks = [''a'']\<rparr>,
         \<lparr>ProjectId = p2, Requester = requester, Hour = h2, Day = day, Tasks = [''a'', ''b'']\<rparr>])
        day requester = Some [''a'', ''a'', ''b'']"
  by (simp add: bucket_buildDailyStatsRollup) (simp add: unitsOf_def)

theorem C6_rollup_concatenates_witness:
  "bucket (buildDailyStatsRollup
     [\<lparr>ProjectId = ''p'', Requester = ''patch'', Hour = 10, Day = 0, Tasks = [''a'']\<rparr>,
      \<lparr>ProjectId = ''p'', Requester = ''mainline'', Hour = 11, Day = 0, Tasks = [''c'']\<rparr>,
      \<lparr>ProjectId = ''p'', Requester = ''patch'', Hour = 12, Day = 0, Tasks = [''a'', ''b'']\<rparr>])
     0 ''patch'' = Some [''a'', ''a'', ''b'']"
  using C6_rollup_concatenates [of
     "[\<lparr>ProjectId = ''p'', Requester = ''patch'', Hour = 10, Day = 0, Tasks = [''a'']\<rparr>,
      \<lparr>ProjectId = ''p'', Requester = ''mainline'', Hour = 11, Day = 0, Tasks = [''c'']\<rparr>,
      \<lparr>ProjectId = ''p'', Requester = ''patch'', Hour = 12, Day = 0, Tasks = [''a'', ''b'']\<rparr>]"
     0 "''patch''"]
  by (simp add: unitsOf_def)

subsection \<open>C7: compiling the ignore patterns\<close>




subsection \<open>C8: filtering a unit\<close>

text \<open>
  Claim C8. Filtering a task list keeps, in order, exactly the names that no ignore pattern
  matches. A unit whose filtered task list is empty is skipped by the hourly stage without
  a call, so the hourly calls are those of the units that the filter of the specification
  keeps; and no generator call, hourly or daily, of a dispatch or of a run has an empty
  task list.
\<close>

theorem C8_filter_and_skip_empty:
  fixes env :: "'w env" and fn :: "'v generateStatsFn" and generateFns :: "'u generateFunctions"
  shows "filterIgnoredTasks taskList tasksToIgnore =
       filter (\<lambda>t. \<not> (\<exists>r \<in> set tasksToIgnore. MatchString r t)) taskList
   \<and> (filterIgnoredTasks (Tasks stat) (TasksToIgnore c) = [] \<longrightarrow>
        iteratorOverHourlyStats c (stat # stats) fn name v =
        iteratorOverHourlyStats c stats fn name v)
   \<and> hourlyCalls c name stats =
       map (\<lambda>stat. \<lparr>call_stage = Hourly, call_displayName = name,
                     call_projectId = ProjectId stat, call_requester = Requester stat,
                     call_timePeriod = Hour stat, call_tasks = Tasks stat,
                     call_jobDate = JobTime c\<rparr>)
         (Filter_spec (TasksToIgnore c) stats)
   \<and> (\<forall>e \<in> set (snd (snd (updateHourlyAndDailyStats c ord statsToUpdate generateFns u))).
        call_tasks (fst e) \<noteq> [])
   \<and> (\<forall>call res. GenerateEv call res \<in> set (jobEvents (Run env ord' p w0)) \<longrightarrow>
        call_tasks call \<noteq> [])"
proof (intro conjI)
  show "filterIgnoredTasks taskList tasksToIgnore =
       filter (\<lambda>t. \<not> (\<exists>r \<in> set tasksToIgnore. MatchString r t)) taskList"
    by (simp add: filterIgnoredTasks_eq anyRegexMatch_iff)
  show "filterIgnoredTasks (Tasks stat) (TasksToIgnore c) = [] \<longrightarrow>
        iteratorOverHourlyStats c (stat # stats) fn name v =
        iteratorOverHourlyStats c stats fn name v"
    by simp
  show "hourlyCalls c name stats =
       map (\<lambda>stat. \<lparr>call_stage = Hourly, call_displayName = name,
                     call_projectId = ProjectId stat, call_requester = Requester stat,
                     call_timePeriod = Hour stat, call_tasks = Tasks stat,
                     call_jobDate = JobTime c\<rparr>)
         (Filter_spec (TasksToIgnore c) stats)"
    by (rule hourlyCalls_Filter_spec)
  show "\<forall>e \<in> set (snd (snd (updateHourlyAndDailyStats c ord statsToUpdate generateFns u))).
        call_tasks (fst e) \<noteq> []"
    using dispatch_tasks(1) [of c ord statsToUpdate generateFns u]
    by (metis prod.collapse)
  show "\<forall>call res. GenerateEv call res \<in> set (jobEvents (Run env ord' p w0)) \<longrightarrow>
        call_tasks call \<noteq> []"
    using Run_generate_events [of _ _ env ord' p w0] dispatch_tasks(1)
    by (metis fst_conv)
qed

text \<open>
  The tasks gen\_x and keep\_y filter to keep\_y; a unit with the one task gen\_z gets no
  call; the calls for the example units have the task lists shown.
\<close>

theorem C8_filter_and_skip_empty_witness:
  "filterIgnoredTasks [''gen_x'', ''keep_y''] [startsWith ''gen_''] = [''keep_y'']
   \<and> iteratorOverHourlyStats exampleContext
        [\<lparr>ProjectId = ''p'', Requester = ''patch'', Hour = 11, Day = 0, Tasks = [''gen_z'']\<rparr>]
        succeedingFn ''h1'' () = (None, (), [])
   \<and> map (call_tasks \<circ> fst)
        (snd (snd (updateHourlyAndDailyStats exampleContext exampleOrder exampleUnits
           \<lparr>HourlyFns = [(''h1'', succeedingFn)], DailyFns = [(''d1'', succeedingFn)]\<rparr> ())))
      = [[''keep_y''], [''keep_y''], [''keep_y'', ''keep_y'']]"
  using C8_filter_and_skip_empty [where taskList = "[''gen_x'', ''keep_y'']"
      and tasksToIgnore = "[startsWith ''gen_'']"
      and stat = "\<lparr>ProjectId = ''p'', Requester = ''patch'', Hour = 11, Day = 0,
                    Tasks = [''gen_z'']\<rparr>"
      and c = exampleContext and stats = "[]" and fn = succeedingFn and name = "''h1''"
      and v = "()" and ord = exampleOrder and statsToUpdate = exampleUnits
      and generateFns = "\<lparr>HourlyFns = [(''h1'', succeedingFn)],
                          DailyFns = [(''d1'', succeedingFn)]\<rparr>"
      and u = "()" and env = exampleEnv and ord' = exampleOrder and p = "''p''"
      and ?w0.0 = "\<lparr>clock = 5, checkpoint = 0, ignorePatterns = [''^gen_''],
                      fetchFails = False, generatorsFail = False\<rparr>"]
  by (simp add: example_dispatch_succeeding)
     (simp add: exampleContext_def startsWith_def filterIgnoredTasks_def succeedingFn_def)

subsection \<open>C9: the manifest endpoint\<close>




subsection \<open>C10: filtering distributes over the rollup\<close>

text \<open>
  Claim C10. Filtering a concatenation of two task lists is the concatenation of the two
  filtered lists. So the filtered bucket of the rollup of the units as fetched is the bucket
  of the rollup of the units filtered one by one, for every day and requester; and, read as
  a task list (empty where there is no bucket), it is also the bucket of the rollup of the
  units filtered as the specification describes, where emptied units are dropped.
\<close>

theorem C10_filter_distributes:
  "filterIgnoredTasks (xs @ ys) tasksToIgnore =
     filterIgnoredTasks xs tasksToIgnore @ filterIgnoredTasks ys tasksToIgnore
   \<and> map_option (\<lambda>ts. filterIgnoredTasks ts tasksToIgnore)
        (bucket (buildDailyStatsRollup hourlyStats) day requester) =
      bucket (buildDailyStatsRollup (map (filterUnit tasksToIgnore) hourlyStats)) day requester
   \<and> filterIgnoredTasks (bucketTasks (buildDailyStatsRollup hourlyStats) day requester)
        tasksToIgnore =
      bucketTasks (buildDailyStatsRollup (Filter_spec tasksToIgnore hourlyStats)) day requester"
proof (intro conjI)
  show "filterIgnoredTasks (xs @ ys) tasksToIgnore =
     filterIgnoredTasks xs tasksToIgnore @ filterIgnoredTasks ys tasksToIgnore"
    by (rule filterIgnoredTasks_append)
next
  have "Tasks (filterUnit tasksToIgnore u) = filterIgnoredTasks (Tasks u) tasksToIgnore" for u
    by (simp add: filterUnit_def)
  then show "map_option (\<lambda>ts. filterIgnoredTasks ts tasksToIgnore)
        (bucket (buildDailyStatsRollup hourlyStats) day requester) =
      bucket (buildDailyStatsRollup (map (filterUnit tasksToIgnore) hourlyStats)) day requester"
    by (simp add: bucket_buildDailyStatsRollup unitsOf_map_filterUnit
        filterIgnoredTasks_concat o_def)
next
  show "filterIgnoredTasks (bucketTasks (buildDailyStatsRollup hourlyStats) day requester)
        tasksToIgnore =
      bucketTasks (buildDailyStatsRollup (Filter_spec tasksToIgnore hourlyStats)) day requester"
    by (simp add: bucketTasks_buildDailyStatsRollup concat_Tasks_Filter_spec
        filterIgnoredTasks_concat o_def)
qed

text \<open>
  The bucket of day 0 and requester patch of the example units, filtered after the rollup
  and filtered before it.
\<close>

theorem C10_filter_distributes_witness:
  "filterIgnoredTasks ([''gen_x'', ''keep_y''] @ [''gen_z'']) [startsWith ''gen_'']
     = [''keep_y'']
   \<and> filterIgnoredTasks (bucketTasks (buildDailyStatsRollup exampleUnits) 0 ''patch'')
       [startsWith ''gen_''] = [''keep_y'', ''keep_y'']
   \<and> bucketTasks (buildDailyStatsRollup (Filter_spec [startsWith ''gen_''] exampleUnits))
       0 ''patch'' = [''keep_y'', ''keep_y'']"
proof -
  note a = C10_filter_distributes [where xs = "[''gen_x'', ''keep_y'']"
      and ys = "[''gen_z'']" and tasksToIgnore = "[startsWith ''gen_'']"
      and hourlyStats = exampleUnits and day = 0 and requester = "''patch''"]
  have 1: "filterIgnoredTasks ([''gen_x'', ''keep_y''] @ [''gen_z'']) [startsWith ''gen_'']
     = [''keep_y'']"
    using a [THEN conjunct1] by (simp add: filterIgnoredTasks_def startsWith_def)
  have 2: "bucketTasks (buildDailyStatsRollup (Filter_spec [startsWith ''gen_''] exampleUnits))
       0 ''patch'' = [''keep_y'', ''keep_y'']"
    by (simp add: bucketTasks_buildDailyStatsRollup unitsOf_def exampleUnits_def
        Filter_spec_def filterUnit_def filterIgnoredTasks_def startsWith_def)
  from a [THEN conjunct2, THEN conjunct2] 2
  have 3: "filterIgnoredTasks (bucketTasks (buildDailyStatsRollup exampleUnits) 0 ''patch'')
       [startsWith ''gen_''] = [''keep_y'', ''keep_y'']"
    by simp
  from 1 3 2 show ?thesis by (intro conjI) blast+
qed

end
